theory Spec2Isabelle
  imports Main
begin

section \<open>The module options\<close>

text \<open>
  The Nuxt module is defined by one call of \<open>defineNuxtModule\<close> with a \<open>defaults\<close>
  object and a \<open>setup\<close> function. The options are plain JavaScript objects. An object
  of boolean flags (\<open>standardJobs\<close>, \<open>standardMiddleware.server\<close>, ...) is an
  association list in the order of the object literal, so that the keys an object really
  has can be counted. A flag that is read but not present is \<open>undefined\<close>, which the
  \<open>if\<close> of the source takes as false.
\<close>

type_synonym flags = "(string \<times> bool) list"

definition flag :: "flags \<Rightarrow> string \<Rightarrow> bool" where
  "flag fs k = (case map_of fs k of None \<Rightarrow> False | Some b \<Rightarrow> b)"

text \<open>
  A route option is \<open>string | false\<close> (the catch-all \<open>'*'\<close> is a boolean); a handle
  that is missing reads as \<open>undefined\<close>. The conditions of \<open>setup\<close> are JavaScript
  truthiness tests: \<open>false\<close>, \<open>undefined\<close> and the empty string are falsy.
\<close>

datatype js_value = JUndefined | JBool bool | JString string

fun truthy :: "js_value \<Rightarrow> bool" where
  "truthy JUndefined = False"
| "truthy (JBool b) = b"
| "truthy (JString s) = (s \<noteq> [])"

type_synonym routes_object = "(string \<times> js_value) list"

definition route_option :: "routes_object \<Rightarrow> string \<Rightarrow> js_value" where
  "route_option rs k = (case map_of rs k of None \<Rightarrow> JUndefined | Some v \<Rightarrow> v)"

record api_options =
  api_prefix :: string
  routes :: routes_object

record dashboard_options =
  baseComponents :: "(string \<times> string option) list"
  enabled :: bool
  legalLinks :: "string list"
  dashboard_prefix :: string
  removeSiteStyles :: bool

text \<open>\<open>jobs\<close> is an object or \<open>false\<close> (\<open>None\<close>); the interval is a number of seconds.\<close>

record jobs_options =
  searchInterval :: nat

text \<open>\<open>renewInterval\<close> is a number of minutes; the two expirations are time span strings.\<close>

record jwt_options =
  expiration :: string
  expirationLong :: string
  renewInterval :: nat
  secretKey :: string
  localStorageKey :: string

record language_options =
  supported :: "string list"
  primary :: string
  language_localStorageKey :: string

record middleware_options =
  client :: flags
  server :: flags

datatype drive_options =
    LocalDrive (drive_path: "string option") (urlPrefix: "string option")
  | S3Drive

datatype file_size = SizeUnset | SizeBytes nat | SizeText string

record uploads_options =
  drive :: "drive_options option"
  maxFileSize :: file_size

text \<open>\<open>pageCache\<close> is optional: unset, \<open>false\<close>, the local file system or Redis.\<close>

datatype page_cache = PageCacheUnset | PageCacheOff | PageCacheLocal string | PageCacheRedis

record ModuleOptions =
  api :: api_options
  catchAllPages :: bool
  customCapabilities :: "string list"
  dashboard :: dashboard_options
  database :: string
  jobs :: "jobs_options option"
  jwt :: jwt_options
  language :: language_options
  migration :: bool
  redis :: "string option"
  singleCollectionsTable :: string
  standardCollections :: flags
  standardFields :: flags
  standardHooks :: flags
  standardJobs :: flags
  standardMiddleware :: middleware_options
  standardTranslatableStrings :: flags
  uploads :: uploads_options
  pageCache :: page_cache

subsection \<open>The defaults\<close>

text \<open>
  The \<open>defaults\<close> object literal is evaluated once, when the module is defined. Its only
  field that is not a constant is \<open>jwt.secretKey\<close>, the result of the call
  \<open>nanoid(64)\<close> made at that moment; the argument \<open>generated\<close> is that result.
  \<open>pageCache\<close> is not among the defaults.
\<close>

definition default_routes :: routes_object where
  "default_routes =
    [(''clear-cache.post'', JString ''clear-cache''),
     (''collections'', JString ''collections''),
     (''dashboard.get'', JString ''dashboard''),
     (''install.post'', JString ''install''),
     (''installed.get'', JString ''installed''),
     (''login.post'', JString ''login''),
     (''logout.post'', JString ''logout''),
     (''logout-all.post'', JString ''logout-all''),
     (''logout-others.post'', JString ''logout-others''),
     (''pages.get'', JString ''pages''),
     (''previews.get'', JString ''previews''),
     (''process-job.post'', JString ''process-job''),
     (''profile.get'', JString ''profile''),
     (''profile.patch'', JString ''profile''),
     (''renew-token.post'', JString ''renew-token''),
     (''robots.txt.get'', JString ''robots.txt''),
     (''sitemap.xml.get'', JString ''sitemap.xml''),
     (''translatable-strings.get'', JString ''translatable-strings''),
     (''*'', JBool True)]"

definition default_baseComponents :: "(string \<times> string option) list" where
  "default_baseComponents =
    [(''collections/overview'', None),
     (''collections/record'', None),
     (''head'', None),
     (''header/logo'', None),
     (''install'', None),
     (''login'', None),
     (''login/logo'', None),
     (''logout'', None),
     (''media'', None)]"

definition default_standardCollections :: flags where
  "default_standardCollections =
    [(''pages'', True), (''presets'', True), (''previews'', True), (''redirects'', True),
     (''roles'', True), (''seo'', True), (''uploads'', True), (''users'', True)]"

definition default_standardFields :: flags where
  "default_standardFields =
    [(''block'', True), (''button-group'', True), (''checkbox'', True),
     (''checkboxes'', True), (''chips'', True), (''date'', True), (''date-range'', True),
     (''date-time'', True), (''date-time-range'', True), (''editor'', True),
     (''file'', True), (''icon'', True), (''image'', True), (''link'', True),
     (''number'', True), (''range'', True), (''record'', True), (''records'', True),
     (''repeater'', True), (''select'', True), (''size'', True), (''slider'', True),
     (''slider-range'', True), (''switch'', True), (''text'', True), (''text-area'', True),
     (''time'', True), (''time-range'', True)]"

definition defaults :: "string \<Rightarrow> ModuleOptions" where
  "defaults generated =
    \<lparr> api = \<lparr> api_prefix = ''api'', routes = default_routes \<rparr>,
      catchAllPages = True,
      customCapabilities = [],
      dashboard =
        \<lparr> baseComponents = default_baseComponents,
          enabled = True,
          legalLinks = [],
          dashboard_prefix = ''dashboard'',
          removeSiteStyles = True \<rparr>,
      database = ''sqlite:./pruvious.db'',
      jobs = Some \<lparr> searchInterval = 60 \<rparr>,
      jwt =
        \<lparr> expiration = ''4 hours'',
          expirationLong = ''7 days'',
          renewInterval = 30,
          secretKey = generated,
          localStorageKey = ''token'' \<rparr>,
      language =
        \<lparr> supported = [], primary = ''en'', language_localStorageKey = ''language'' \<rparr>,
      migration = True,
      redis = None,
      singleCollectionsTable = ''single_collections'',
      standardCollections = default_standardCollections,
      standardFields = default_standardFields,
      standardHooks = [(''redirects'', True)],
      standardJobs =
        [(''clean-expired-previews'', True),
         (''clean-expired-tokens'', True),
         (''publish-pages'', True)],
      standardMiddleware =
        \<lparr> client = [(''auth'', True)],
          server =
            [(''auth'', True), (''config'', True), (''language'', True), (''uploads'', True)] \<rparr>,
      standardTranslatableStrings = [(''dashboard'', True), (''server'', True)],
      uploads =
        \<lparr> drive = Some (LocalDrive (Some ''./.uploads'') (Some ''uploads'')),
          maxFileSize = SizeText ''16 MB'' \<rparr>,
      pageCache = PageCacheUnset \<rparr>"

section \<open>The setup function\<close>

subsection \<open>What setup calls and what it writes\<close>

text \<open>
  \<open>setup\<close> calls functions of the module whose bodies are in other files
  (\<open>runtime/utils\<close>, \<open>runtime/instances\<close>, \<open>runtime/main\<close>). They are parameters
  of the model, collected in one record, so that every theorem below holds for whatever
  these functions compute:
  \<^item> \<open>joinRouteParts\<close> takes the route parts as they are passed (a part read from the
    routes object is a JavaScript value);
  \<open>resolveModulePath\<close>, \<open>resolveRelativeAppPath\<close>, \<open>resolveRelativeModulePath\<close>,
    \<open>pascalCase\<close> and \<open>parse\<close> (of \<open>runtime/utils/bytes\<close>) are functions of their
    arguments;
  \<^item> \<open>mergeDefaults\<close> merges the object \<open>setup\<close> builds into what the runtime config
    holds already (\<open>None\<close> when it holds nothing), once for the private and once for
    the public runtime config;
  \<^item> \<open>getModuleOptions\<close> stands for \<open>patchModuleOptions\<close>, \<open>cacheModuleOptions\<close>
    and \<open>getModuleOptions\<close> in a row: the module options that the rest of \<open>setup\<close>
    reads, computed from the two runtime configs;
  \<^item> \<open>validateLanguageOptions\<close> is the last check of \<open>setup\<close>; \<open>Some msg\<close> means that
    it throws, which makes \<open>setup\<close> fail.
\<close>

text \<open>The object merged into \<open>nuxt.options.runtimeConfig.pruvious\<close>.\<close>

record private_config =
  rc_catchAllPages :: bool
  rc_customCapabilities :: "string list"
  rc_dashboard :: dashboard_options
  rc_database :: string
  rc_jwt :: jwt_options
  rc_jobs :: "jobs_options option"
  rc_migration :: bool
  rc_redis :: "string option"
  rc_singleCollectionsTable :: string
  rc_standardCollections :: flags
  rc_standardFields :: flags
  rc_standardHooks :: flags
  rc_standardJobs :: flags
  rc_standardMiddleware :: middleware_options
  rc_standardTranslatableStrings :: flags
  rc_uploads :: uploads_options
  rc_uploadsDir :: "string option"

text \<open>The object merged into \<open>nuxt.options.runtimeConfig.public.pruvious\<close>.\<close>

record public_config =
  rc_api :: api_options
  dashboardPrefix :: string
  dashboardRemoveSiteStyles :: bool
  jwtRenewInterval :: nat
  jwtLocalStorageKey :: string
  rc_language :: language_options
  uploadLimit :: nat

record helpers =
  joinRouteParts :: "js_value list \<Rightarrow> string"
  resolveModulePath :: "string \<Rightarrow> string"
  resolveRelativeAppPath :: "string \<Rightarrow> string"
  resolveRelativeModulePath :: "string \<Rightarrow> string \<Rightarrow> string"
  pascalCase :: "string \<Rightarrow> string"
  parse :: "string \<Rightarrow> nat"
  mergeDefaults_private :: "private_config option \<Rightarrow> private_config \<Rightarrow> private_config"
  mergeDefaults_public :: "public_config option \<Rightarrow> public_config \<Rightarrow> public_config"
  getModuleOptions :: "private_config \<Rightarrow> public_config \<Rightarrow> ModuleOptions"
  validateLanguageOptions :: "ModuleOptions \<Rightarrow> string option"

text \<open>
  What \<open>setup\<close> registers with Nuxt. \<open>addServerHandler\<close>, \<open>addRouteMiddleware\<close> and the
  callback given to \<open>extendPages\<close> append to lists that Nuxt keeps; the state holds
  these lists and the two runtime configs. The rest of what \<open>setup\<close> does (the version
  warning, the build hooks, the alias, the ignore list, the uploads directory and its
  symbolic link) writes to none of them and is not part of the state.
\<close>

record server_handler =
  route :: string
  middleware :: bool
  handler :: string

record route_middleware =
  mw_name :: string
  mw_path :: string
  mw_global :: bool

record nuxt_page =
  page_name :: string
  page_path :: string
  page_file :: string

record nuxt =
  runtimeConfig :: "private_config option"
  publicRuntimeConfig :: "public_config option"
  routeMiddleware :: "route_middleware list"
  serverHandlers :: "server_handler list"
  pages :: "nuxt_page list"

definition addServerHandler :: "server_handler \<Rightarrow> nuxt \<Rightarrow> nuxt" where
  "addServerHandler x n = n\<lparr> serverHandlers := serverHandlers n @ [x] \<rparr>"

text \<open>\<open>addRouteMiddleware\<close> is called with \<open>override: true\<close>: an entry of the same name is replaced.\<close>

definition addRouteMiddleware :: "route_middleware \<Rightarrow> nuxt \<Rightarrow> nuxt" where
  "addRouteMiddleware x n =
     n\<lparr> routeMiddleware := filter (\<lambda>y. mw_name y \<noteq> mw_name x) (routeMiddleware n) @ [x] \<rparr>"

definition pushPage :: "nuxt_page \<Rightarrow> nuxt \<Rightarrow> nuxt" where
  "pushPage x n = n\<lparr> pages := pages n @ [x] \<rparr>"

subsection \<open>Init: the two runtime configs\<close>

text \<open>
  The loop over \<open>options.dashboard.baseComponents\<close> replaces every component path: a
  truthy path is resolved against the application, a missing or empty one against the
  module's own dashboard components.
\<close>

fun resolveBaseComponents ::
  "helpers \<Rightarrow> (string \<times> string option) list \<Rightarrow> (string \<times> string option) list" where
  "resolveBaseComponents h [] = []"
| "resolveBaseComponents h ((name, componentPath) # rest) =
     (name,
      Some (case componentPath of
              Some p \<Rightarrow>
                if p \<noteq> [] then resolveRelativeAppPath h p
                else resolveRelativeModulePath h ''./runtime/components/dashboard''
                       (pascalCase h name @ ''.vue'')
            | None \<Rightarrow>
                resolveRelativeModulePath h ''./runtime/components/dashboard''
                  (pascalCase h name @ ''.vue'')))
     # resolveBaseComponents h rest"

definition uploadsDir_of :: "helpers \<Rightarrow> uploads_options \<Rightarrow> string option" where
  "uploadsDir_of h u =
     (case drive u of
        Some (LocalDrive p _) \<Rightarrow>
          Some (resolveRelativeAppPath h (case p of Some q \<Rightarrow> q | None \<Rightarrow> ''./.uploads''))
      | _ \<Rightarrow> None)"

definition uploadLimit_of :: "helpers \<Rightarrow> uploads_options \<Rightarrow> nat" where
  "uploadLimit_of h u =
     (case maxFileSize u of
        SizeText s \<Rightarrow> parse h s
      | SizeBytes n \<Rightarrow> n
      | SizeUnset \<Rightarrow> parse h ''16 MB'')"

text \<open>
  The object literal handed to the first \<open>mergeDefaults\<close>. It lists the options it
  copies one by one; \<open>api\<close> and \<open>language\<close> go to the public config, and
  \<open>pageCache\<close> is copied to neither.
\<close>

definition private_object :: "helpers \<Rightarrow> ModuleOptions \<Rightarrow> private_config" where
  "private_object h options =
    \<lparr> rc_catchAllPages = catchAllPages options,
      rc_customCapabilities = customCapabilities options,
      rc_dashboard = dashboard options,
      rc_database = database options,
      rc_jwt = jwt options,
      rc_jobs = jobs options,
      rc_migration = migration options,
      rc_redis = redis options,
      rc_singleCollectionsTable = singleCollectionsTable options,
      rc_standardCollections = standardCollections options,
      rc_standardFields = standardFields options,
      rc_standardHooks = standardHooks options,
      rc_standardJobs = standardJobs options,
      rc_standardMiddleware = standardMiddleware options,
      rc_standardTranslatableStrings = standardTranslatableStrings options,
      rc_uploads = uploads options,
      rc_uploadsDir = uploadsDir_of h (uploads options) \<rparr>"

definition public_object :: "helpers \<Rightarrow> ModuleOptions \<Rightarrow> public_config" where
  "public_object h options =
    \<lparr> rc_api = api options,
      dashboardPrefix = dashboard_prefix (dashboard options),
      dashboardRemoveSiteStyles = removeSiteStyles (dashboard options),
      jwtRenewInterval = renewInterval (jwt options),
      jwtLocalStorageKey = localStorageKey (jwt options),
      rc_language = language options,
      uploadLimit = uploadLimit_of h (uploads options) \<rparr>"

definition resolved_options :: "helpers \<Rightarrow> ModuleOptions \<Rightarrow> ModuleOptions" where
  "resolved_options h options =
     options\<lparr> dashboard := (dashboard options)
       \<lparr> baseComponents := resolveBaseComponents h (baseComponents (dashboard options)) \<rparr> \<rparr>"

definition init_private :: "helpers \<Rightarrow> ModuleOptions \<Rightarrow> nuxt \<Rightarrow> private_config" where
  "init_private h options n =
     mergeDefaults_private h (runtimeConfig n) (private_object h (resolved_options h options))"

definition init_public :: "helpers \<Rightarrow> ModuleOptions \<Rightarrow> nuxt \<Rightarrow> public_config" where
  "init_public h options n =
     mergeDefaults_public h (publicRuntimeConfig n) (public_object h (resolved_options h options))"

subsection \<open>Client and server middleware\<close>

definition clientMiddleware :: "helpers \<Rightarrow> ModuleOptions \<Rightarrow> nuxt \<Rightarrow> nuxt" where
  "clientMiddleware h moduleOptions n =
     (if flag (client (standardMiddleware moduleOptions)) ''auth''
      then addRouteMiddleware
             \<lparr> mw_name = ''pruvious-auth'',
               mw_path = resolveModulePath h ''./runtime/middleware/client/auth'',
               mw_global = flag (client (standardMiddleware moduleOptions)) ''auth'' \<rparr> n
      else n)"

text \<open>The loop \<open>for (const middleware of ['config', 'language', 'auth'])\<close>.\<close>

fun serverMiddlewareLoop :: "helpers \<Rightarrow> ModuleOptions \<Rightarrow> string list \<Rightarrow> nuxt \<Rightarrow> nuxt" where
  "serverMiddlewareLoop h moduleOptions [] n = n"
| "serverMiddlewareLoop h moduleOptions (mw # rest) n =
     serverMiddlewareLoop h moduleOptions rest
       (if flag (server (standardMiddleware moduleOptions)) mw
        then addServerHandler
               \<lparr> route = [],
                 middleware = True,
                 handler = resolveModulePath h (''./runtime/middleware/server/'' @ mw) \<rparr> n
        else n)"

definition serverMiddleware :: "helpers \<Rightarrow> ModuleOptions \<Rightarrow> nuxt \<Rightarrow> nuxt" where
  "serverMiddleware h moduleOptions n =
     serverMiddlewareLoop h moduleOptions [''config'', ''language'', ''auth''] n"

subsection \<open>API routes\<close>

definition collectionsRoute :: "helpers \<Rightarrow> ModuleOptions \<Rightarrow> nuxt \<Rightarrow> nuxt" where
  "collectionsRoute h moduleOptions n =
     (if truthy (route_option (routes (api moduleOptions)) ''collections'')
      then addServerHandler
             \<lparr> route = joinRouteParts h
                 [JString (api_prefix (api moduleOptions)),
                  route_option (routes (api moduleOptions)) ''collections'',
                  JString ''**''],
               middleware = False,
               handler = resolveModulePath h ''./runtime/api/collections'' \<rparr> n
      else n)"

text \<open>The loop over the twelve routes that are registered at \<open>prefix/path\<close>.\<close>

fun apiRoutesLoop :: "helpers \<Rightarrow> ModuleOptions \<Rightarrow> string list \<Rightarrow> nuxt \<Rightarrow> nuxt" where
  "apiRoutesLoop h moduleOptions [] n = n"
| "apiRoutesLoop h moduleOptions (r # rest) n =
     apiRoutesLoop h moduleOptions rest
       (if truthy (route_option (routes (api moduleOptions)) r)
        then addServerHandler
               \<lparr> route = joinRouteParts h
                   [JString (api_prefix (api moduleOptions)),
                    route_option (routes (api moduleOptions)) r],
                 middleware = False,
                 handler = resolveModulePath h (''./runtime/api/'' @ r) \<rparr> n
        else n)"

definition apiRouteNames :: "string list" where
  "apiRouteNames =
    [''clear-cache.post'', ''dashboard.get'', ''install.post'', ''installed.get'',
     ''login.post'', ''logout.post'', ''logout-all.post'', ''logout-others.post'',
     ''process-job.post'', ''profile.get'', ''profile.patch'', ''renew-token.post'']"

definition apiRoutes :: "helpers \<Rightarrow> ModuleOptions \<Rightarrow> nuxt \<Rightarrow> nuxt" where
  "apiRoutes h moduleOptions n = apiRoutesLoop h moduleOptions apiRouteNames n"

text \<open>
  The routes below are registered inside a second test, \<open>if (moduleOptions.api.prefix!)\<close>:
  a base route and an extended one (\<open>**\<close>, or \<open>:domain\<close> for the translatable strings).
\<close>

definition prefixGated :: "helpers \<Rightarrow> ModuleOptions \<Rightarrow> string \<Rightarrow> string \<Rightarrow> nuxt \<Rightarrow> nuxt" where
  "prefixGated h moduleOptions r ext n =
     (if truthy (route_option (routes (api moduleOptions)) r)
      then
        (if api_prefix (api moduleOptions) \<noteq> []
         then addServerHandler
                \<lparr> route = joinRouteParts h
                    [JString (api_prefix (api moduleOptions)),
                     route_option (routes (api moduleOptions)) r,
                     JString ext],
                  middleware = False,
                  handler = resolveModulePath h (''./runtime/api/'' @ r) \<rparr>
                (addServerHandler
                   \<lparr> route = joinRouteParts h
                       [JString (api_prefix (api moduleOptions)),
                        route_option (routes (api moduleOptions)) r],
                     middleware = False,
                     handler = resolveModulePath h (''./runtime/api/'' @ r) \<rparr> n)
         else n)
      else n)"

definition pagesRoutes :: "helpers \<Rightarrow> ModuleOptions \<Rightarrow> nuxt \<Rightarrow> nuxt" where
  "pagesRoutes h moduleOptions n = prefixGated h moduleOptions ''pages.get'' ''**'' n"

definition previewsRoutes :: "helpers \<Rightarrow> ModuleOptions \<Rightarrow> nuxt \<Rightarrow> nuxt" where
  "previewsRoutes h moduleOptions n = prefixGated h moduleOptions ''previews.get'' ''**'' n"

definition translatableStringsRoutes :: "helpers \<Rightarrow> ModuleOptions \<Rightarrow> nuxt \<Rightarrow> nuxt" where
  "translatableStringsRoutes h moduleOptions n =
     prefixGated h moduleOptions ''translatable-strings.get'' '':domain'' n"

definition catchAllRoutes :: "helpers \<Rightarrow> ModuleOptions \<Rightarrow> nuxt \<Rightarrow> nuxt" where
  "catchAllRoutes h moduleOptions n =
     (if truthy (route_option (routes (api moduleOptions)) ''*'')
      then addServerHandler
             \<lparr> route = joinRouteParts h [JString (api_prefix (api moduleOptions)), JString ''**''],
               middleware = False,
               handler = resolveModulePath h ''./runtime/api/catch-all'' \<rparr>
             (if api_prefix (api moduleOptions) \<noteq> []
              then addServerHandler
                     \<lparr> route = joinRouteParts h [JString (api_prefix (api moduleOptions))],
                       middleware = False,
                       handler = resolveModulePath h ''./runtime/api/catch-all'' \<rparr> n
              else n)
      else n)"

subsection \<open>Pages and SEO\<close>

definition extendPages :: "helpers \<Rightarrow> ModuleOptions \<Rightarrow> nuxt \<Rightarrow> nuxt" where
  "extendPages h moduleOptions n =
     (let n' =
        (if enabled (dashboard moduleOptions)
         then pushPage
                \<lparr> page_name = ''pruvious-dashboard'',
                  page_path = joinRouteParts h
                    [JString (dashboard_prefix (dashboard moduleOptions)), JString '':catchAll(.*)?''],
                  page_file = resolveModulePath h ''./runtime/pages/dashboard/index'' \<rparr> n
         else n)
      in if truthy (route_option (routes (api moduleOptions)) ''pages.get'')
            \<and> catchAllPages moduleOptions
         then pushPage
                \<lparr> page_name = ''pruvious-page'',
                  page_path = ''/:catchAll(.*)'',
                  page_file = resolveModulePath h ''./runtime/pages/[...slug]'' \<rparr> n'
         else n')"

definition seoRoutes :: "helpers \<Rightarrow> ModuleOptions \<Rightarrow> nuxt \<Rightarrow> nuxt" where
  "seoRoutes h moduleOptions n =
     (let n' =
        (if truthy (route_option (routes (api moduleOptions)) ''robots.txt.get'')
         then addServerHandler
                \<lparr> route = joinRouteParts h [route_option (routes (api moduleOptions)) ''robots.txt.get''],
                  middleware = False,
                  handler = resolveModulePath h ''./runtime/api/robots.get'' \<rparr> n
         else n)
      in if truthy (route_option (routes (api moduleOptions)) ''sitemap.xml.get'')
         then addServerHandler
                \<lparr> route = joinRouteParts h
                    [route_option (routes (api moduleOptions)) ''sitemap.xml.get'', JString '':index''],
                  middleware = False,
                  handler = resolveModulePath h ''./runtime/api/sitemap.get'' \<rparr>
                (addServerHandler
                   \<lparr> route = joinRouteParts h
                       [route_option (routes (api moduleOptions)) ''sitemap.xml.get''],
                     middleware = False,
                     handler = resolveModulePath h ''./runtime/api/sitemap.get'' \<rparr> n')
         else n')"

subsection \<open>setup\<close>

text \<open>
  Everything \<open>setup\<close> registers is decided by \<open>moduleOptions\<close>, the value that
  \<open>getModuleOptions()\<close> returns after the two runtime configs are written. \<open>register\<close>
  is the part of \<open>setup\<close> from the client middleware to the SEO routes, in the order of
  the source. \<open>setup_module\<close> is the \<open>setup\<close> function of the module: it has no
  \<open>throw\<close> of its own and fails only when \<open>validateLanguageOptions\<close> does.
\<close>

definition register :: "helpers \<Rightarrow> ModuleOptions \<Rightarrow> nuxt \<Rightarrow> nuxt" where
  "register h moduleOptions n =
     seoRoutes h moduleOptions
       (extendPages h moduleOptions
         (catchAllRoutes h moduleOptions
           (translatableStringsRoutes h moduleOptions
             (previewsRoutes h moduleOptions
               (pagesRoutes h moduleOptions
                 (apiRoutes h moduleOptions
                   (collectionsRoute h moduleOptions
                     (serverMiddleware h moduleOptions
                       (clientMiddleware h moduleOptions n)))))))))"

definition moduleOptions_of :: "helpers \<Rightarrow> ModuleOptions \<Rightarrow> nuxt \<Rightarrow> ModuleOptions" where
  "moduleOptions_of h options n =
     getModuleOptions h (init_private h options n) (init_public h options n)"

definition setup_module :: "helpers \<Rightarrow> ModuleOptions \<Rightarrow> nuxt \<Rightarrow> string + nuxt" where
  "setup_module h options n =
     (let moduleOptions = moduleOptions_of h options n;
          n' = register h moduleOptions
                 (n\<lparr> runtimeConfig := Some (init_private h options n),
                     publicRuntimeConfig := Some (init_public h options n) \<rparr>)
      in case validateLanguageOptions h moduleOptions of
           Some msg \<Rightarrow> Inl msg
         | None \<Rightarrow> Inr n')"

subsection \<open>A concrete environment\<close>

text \<open>
  One instance of the functions that \<open>setup\<close> calls, and a Nuxt application in which
  nothing is registered yet. They serve to run \<open>setup_module\<close> on concrete options;
  the general theorems quantify over every instance. Here route parts are joined with
  slashes (parts that are empty or not strings are skipped), paths resolve to
  themselves, an empty runtime config takes the object \<open>setup\<close> built, the module
  options are read back field by field from the two runtime configs, and the language
  options are valid.
\<close>

fun example_joinRouteParts :: "js_value list \<Rightarrow> string" where
  "example_joinRouteParts [] = []"
| "example_joinRouteParts (JString s # parts) =
     (if s = [] then example_joinRouteParts parts
      else CHR ''/'' # s @ example_joinRouteParts parts)"
| "example_joinRouteParts (_ # parts) = example_joinRouteParts parts"

definition example_getModuleOptions :: "private_config \<Rightarrow> public_config \<Rightarrow> ModuleOptions" where
  "example_getModuleOptions priv pub =
    \<lparr> api = rc_api pub,
      catchAllPages = rc_catchAllPages priv,
      customCapabilities = rc_customCapabilities priv,
      dashboard = rc_dashboard priv,
      database = rc_database priv,
      jobs = rc_jobs priv,
      jwt = rc_jwt priv,
      language = rc_language pub,
      migration = rc_migration priv,
      redis = rc_redis priv,
      singleCollectionsTable = rc_singleCollectionsTable priv,
      standardCollections = rc_standardCollections priv,
      standardFields = rc_standardFields priv,
      standardHooks = rc_standardHooks priv,
      standardJobs = rc_standardJobs priv,
      standardMiddleware = rc_standardMiddleware priv,
      standardTranslatableStrings = rc_standardTranslatableStrings priv,
      uploads = rc_uploads priv,
      pageCache = PageCacheUnset \<rparr>"

definition example_helpers :: helpers where
  "example_helpers =
    \<lparr> joinRouteParts = example_joinRouteParts,
      resolveModulePath = (\<lambda>p. p),
      resolveRelativeAppPath = (\<lambda>p. p),
      resolveRelativeModulePath = (\<lambda>dir file. dir @ ''/'' @ file),
      pascalCase = (\<lambda>s. s),
      parse = (\<lambda>s. if s = ''16 MB'' then 16777216 else 0),
      mergeDefaults_private = (\<lambda>current built. case current of None \<Rightarrow> built | Some c \<Rightarrow> c),
      mergeDefaults_public = (\<lambda>current built. case current of None \<Rightarrow> built | Some c \<Rightarrow> c),
      getModuleOptions = example_getModuleOptions,
      validateLanguageOptions = (\<lambda>moduleOptions. None) \<rparr>"

definition empty_nuxt :: nuxt where
  "empty_nuxt =
    \<lparr> runtimeConfig = None, publicRuntimeConfig = None,
      routeMiddleware = [], serverHandlers = [], pages = [] \<rparr>"

text \<open>
  Options for concrete runs: the defaults with the \<open>uploads\<close> flag of the server
  middleware switched off, the defaults with an empty API prefix, and the defaults with a
  job search interval of five seconds.
\<close>

definition options_uploads_off :: ModuleOptions where
  "options_uploads_off =
     (defaults ''k'')
       \<lparr> standardMiddleware :=
           \<lparr> client = [(''auth'', True)],
             server =
               [(''auth'', True), (''config'', True), (''language'', True), (''uploads'', False)] \<rparr> \<rparr>"

definition options_no_prefix :: ModuleOptions where
  "options_no_prefix = (defaults ''k'')\<lparr> api := \<lparr> api_prefix = [], routes = default_routes \<rparr> \<rparr>"

definition options_interval_5 :: ModuleOptions where
  "options_interval_5 = (defaults ''k'')\<lparr> jobs := Some \<lparr> searchInterval = 5 \<rparr> \<rparr>"

section \<open>The handlers that setup registers\<close>

text \<open>The handler that the server middleware loop adds for the flag \<open>mw\<close>.\<close>

definition middlewareHandler :: "helpers \<Rightarrow> string \<Rightarrow> server_handler" where
  "middlewareHandler h mw =
     \<lparr> route = [], middleware = True,
       handler = resolveModulePath h (''./runtime/middleware/server/'' @ mw) \<rparr>"

text \<open>
  The handler of the route \<open>r\<close> at \<open>prefix/path\<close>, and the handler of its extended
  route \<open>prefix/path/ext\<close>.
\<close>

definition apiHandler :: "helpers \<Rightarrow> ModuleOptions \<Rightarrow> string \<Rightarrow> server_handler" where
  "apiHandler h mo r =
     \<lparr> route = joinRouteParts h
         [JString (api_prefix (api mo)), route_option (routes (api mo)) r],
       middleware = False,
       handler = resolveModulePath h (''./runtime/api/'' @ r) \<rparr>"

definition apiHandlerExt :: "helpers \<Rightarrow> ModuleOptions \<Rightarrow> string \<Rightarrow> string \<Rightarrow> server_handler" where
  "apiHandlerExt h mo r ext =
     \<lparr> route = joinRouteParts h
         [JString (api_prefix (api mo)), route_option (routes (api mo)) r, JString ext],
       middleware = False,
       handler = resolveModulePath h (''./runtime/api/'' @ r) \<rparr>"

text \<open>
  What the collections route, a prefix-gated route, the catch-all route and the SEO
  routes add, as lists; the lemmas below show that the sections of \<open>setup\<close> append
  exactly these.
\<close>

definition collectionsHandlers :: "helpers \<Rightarrow> ModuleOptions \<Rightarrow> server_handler list" where
  "collectionsHandlers h mo =
     (if truthy (route_option (routes (api mo)) ''collections'')
      then [apiHandlerExt h mo ''collections'' ''**''
              \<lparr> handler := resolveModulePath h ''./runtime/api/collections'' \<rparr>]
      else [])"

definition gatedHandlers :: "helpers \<Rightarrow> ModuleOptions \<Rightarrow> string \<Rightarrow> string \<Rightarrow> server_handler list" where
  "gatedHandlers h mo r ext =
       (if truthy (route_option (routes (api mo)) r) \<and> api_prefix (api mo) \<noteq> []
        then [apiHandler h mo r, apiHandlerExt h mo r ext] else [])"

definition catchAllHandlers :: "helpers \<Rightarrow> ModuleOptions \<Rightarrow> server_handler list" where
  "catchAllHandlers h mo =
     (if truthy (route_option (routes (api mo)) ''*'')
      then (if api_prefix (api mo) \<noteq> []
            then [\<lparr> route = joinRouteParts h [JString (api_prefix (api mo))],
                     middleware = False,
                     handler = resolveModulePath h ''./runtime/api/catch-all'' \<rparr>]
            else [])
           @ [\<lparr> route = joinRouteParts h [JString (api_prefix (api mo)), JString ''**''],
                 middleware = False,
                 handler = resolveModulePath h ''./runtime/api/catch-all'' \<rparr>]
      else [])"

definition seoHandlers :: "helpers \<Rightarrow> ModuleOptions \<Rightarrow> server_handler list" where
  "seoHandlers h mo =
     (if truthy (route_option (routes (api mo)) ''robots.txt.get'')
      then [\<lparr> route = joinRouteParts h [route_option (routes (api mo)) ''robots.txt.get''],
               middleware = False,
               handler = resolveModulePath h ''./runtime/api/robots.get'' \<rparr>]
      else [])
     @ (if truthy (route_option (routes (api mo)) ''sitemap.xml.get'')
        then [\<lparr> route = joinRouteParts h [route_option (routes (api mo)) ''sitemap.xml.get''],
                 middleware = False,
                 handler = resolveModulePath h ''./runtime/api/sitemap.get'' \<rparr>,
              \<lparr> route = joinRouteParts h
                   [route_option (routes (api mo)) ''sitemap.xml.get'', JString '':index''],
                 middleware = False,
                 handler = resolveModulePath h ''./runtime/api/sitemap.get'' \<rparr>]
        else [])"

text \<open>
  What one run of the part of \<open>setup\<close> from the client middleware to the SEO routes adds:
  the server handlers, in the order of the source, the pages, and the route middleware
  (\<open>addRouteMiddleware\<close> replaces an entry of the same name). The lemmas below show that
  \<open>register\<close> adds exactly these.
\<close>

definition registeredHandlers :: "helpers \<Rightarrow> ModuleOptions \<Rightarrow> server_handler list" where
  "registeredHandlers h mo =
     map (middlewareHandler h)
         (filter (flag (server (standardMiddleware mo))) [''config'', ''language'', ''auth''])
     @ collectionsHandlers h mo
     @ map (apiHandler h mo) (filter (\<lambda>r. truthy (route_option (routes (api mo)) r)) apiRouteNames)
     @ gatedHandlers h mo ''pages.get'' ''**''
     @ gatedHandlers h mo ''previews.get'' ''**''
     @ gatedHandlers h mo ''translatable-strings.get'' '':domain''
     @ catchAllHandlers h mo
     @ seoHandlers h mo"

definition registeredPages :: "helpers \<Rightarrow> ModuleOptions \<Rightarrow> nuxt_page list" where
  "registeredPages h mo =
     (if enabled (dashboard mo)
      then [\<lparr> page_name = ''pruvious-dashboard'',
               page_path = joinRouteParts h
                 [JString (dashboard_prefix (dashboard mo)), JString '':catchAll(.*)?''],
               page_file = resolveModulePath h ''./runtime/pages/dashboard/index'' \<rparr>]
      else [])
     @ (if truthy (route_option (routes (api mo)) ''pages.get'') \<and> catchAllPages mo
        then [\<lparr> page_name = ''pruvious-page'',
                 page_path = ''/:catchAll(.*)'',
                 page_file = resolveModulePath h ''./runtime/pages/[...slug]'' \<rparr>]
        else [])"

definition registeredRouteMiddleware ::
  "helpers \<Rightarrow> ModuleOptions \<Rightarrow> route_middleware list \<Rightarrow> route_middleware list" where
  "registeredRouteMiddleware h mo ms =
     (if flag (client (standardMiddleware mo)) ''auth''
      then filter (\<lambda>y. mw_name y \<noteq> ''pruvious-auth'') ms
           @ [\<lparr> mw_name = ''pruvious-auth'',
                 mw_path = resolveModulePath h ''./runtime/middleware/client/auth'',
                 mw_global = True \<rparr>]
      else ms)"

text \<open>
  The routes object as \<open>module-types.ts\<close> declares it: the catch-all \<open>'*'\<close> is a
  boolean, every other handle is \<open>string | false\<close>, and a handle may be missing.
\<close>

fun typed_route :: "string \<times> js_value \<Rightarrow> bool" where
  "typed_route (k, JUndefined) = True"
| "typed_route (k, JBool b) = (k = ''*'' \<or> \<not> b)"
| "typed_route (k, JString s) = (k \<noteq> ''*'')"

definition typed_routes :: "routes_object \<Rightarrow> bool" where
  "typed_routes rs = list_all typed_route rs"

section \<open>The interface of the standard jobs\<close>

text \<open>
  The interface \<open>ModuleOptions.standardJobs\<close> of \<open>module-types.ts\<close> declares three
  optional boolean flags, each documented with \<open>@default true\<close>.
\<close>

definition standardJobs_interface :: "string list" where
  "standardJobs_interface = [''clean-expired-previews'', ''clean-expired-tokens'', ''publish-pages'']"

section \<open>The token lifecycle\<close>

text \<open>
  \<open>setup\<close> hands the \<open>jwt\<close> options to the runtime config. The code that issues and
  renews tokens with them is in other files of the module; it is modelled here from
  the specification of the Token Lifecycle Manager. Times are seconds.
\<close>

text \<open>
  Modelled from the spec: the Session Token Record of the data model,
  \<open>{token_id, user_id, issued_at, expires_at, renewable_until}\<close>; the Token Lifecycle
  Manager that creates and renews it is missing from the sources.
\<close>

record session_token =
  token_id :: nat
  user_id :: nat
  issued_at :: nat
  expires_at :: nat
  renewable_until :: nat

text \<open>
  Modelled from the spec: the durable store of the Session Token Records, missing from
  the sources, as a map from the token id to the record, with the id that the next
  token gets.
\<close>

record token_store =
  tokens :: "nat \<rightharpoonup> session_token"
  next_token_id :: nat

text \<open>
  Modelled from the spec: \<open>issue\<close> of the Token Lifecycle Manager is missing from the
  sources. \<open>issue(user_id, remember)\<close> creates the Session Token Record and sets
  \<open>expires_at\<close> from the short or the long default duration, depending on
  \<open>remember\<close>. The durations are the \<open>jwt.expiration\<close> and \<open>jwt.expirationLong\<close>
  options, time span strings that the parameter \<open>seconds\<close> reads; the renewal window
  is \<open>jwt.renewInterval\<close> minutes, taken to start at \<open>expires_at\<close>.
\<close>

definition issue ::
  "(string \<Rightarrow> nat) \<Rightarrow> jwt_options \<Rightarrow> nat \<Rightarrow> nat \<Rightarrow> bool \<Rightarrow> token_store
     \<Rightarrow> session_token \<times> token_store" where
  "issue seconds cfg now user remember store =
     (let expires = now + seconds (if remember then expirationLong cfg else expiration cfg);
          token = \<lparr> token_id = next_token_id store,
                    user_id = user,
                    issued_at = now,
                    expires_at = expires,
                    renewable_until = expires + 60 * renewInterval cfg \<rparr>
      in (token,
          store\<lparr> tokens := (tokens store)(next_token_id store \<mapsto> token),
                 next_token_id := Suc (next_token_id store) \<rparr>))"

section \<open>The job search interval\<close>

text \<open>
  \<open>setup\<close> hands the \<open>jobs\<close> option to the runtime config. The clock that ticks on
  the search interval is in other files of the module; it is modelled here from the
  specification of the Clock and Interval Trigger. Times are seconds.
\<close>

text \<open>
  Modelled from the spec: the handle of the Clock and Interval Trigger, which is
  missing from the sources. The clock keeps its interval and an absolute next-fire
  time, so that a late callback does not shift the later fires.
\<close>

record clock =
  interval :: nat
  next_fire :: nat
  cancelled :: bool

text \<open>
  Modelled from the spec: \<open>start(intervalSeconds) -> handle\<close> of the Clock, missing from
  the sources; the first tick fires one interval after the start.
\<close>

definition start :: "nat \<Rightarrow> nat \<Rightarrow> clock" where
  "start intervalSeconds now =
     \<lparr> interval = intervalSeconds, next_fire = now + intervalSeconds, cancelled = False \<rparr>"

text \<open>
  Modelled from the spec: \<open>stop(handle)\<close> of the Clock, missing from the sources; it
  cancels the fires to come.
\<close>

definition stop :: "clock \<Rightarrow> clock" where
  "stop c = c\<lparr> cancelled := True \<rparr>"

text \<open>
  Modelled from the spec: the firing of the Clock, missing from the sources. \<open>poll\<close> is
  the clock looked at at time \<open>now\<close>: it says whether a tick fires (the clock is not
  cancelled and the next-fire time has come) and gives the clock after it, with the
  next-fire time moved on by one interval.
\<close>

definition poll :: "clock \<Rightarrow> nat \<Rightarrow> bool \<times> clock" where
  "poll c now =
     (if \<not> cancelled c \<and> next_fire c \<le> now
      then (True, c\<lparr> next_fire := next_fire c + interval c \<rparr>)
      else (False, c))"

text \<open>
  Modelled from the spec: the running instances, each hosting its own clock (the code
  that starts the clocks is missing from the sources), as a map from the instance to
  its clock.
\<close>

type_synonym instances = "nat \<rightharpoonup> clock"

text \<open>
  Modelled from the spec: the start of an instance, missing from the sources. Its clock
  is started with the \<open>jobs.searchInterval\<close> of the runtime config; with \<open>jobs\<close> set
  to \<open>false\<close> no clock is started.
\<close>

definition boot_instance :: "jobs_options option \<Rightarrow> nat \<Rightarrow> nat \<Rightarrow> instances \<Rightarrow> instances" where
  "boot_instance cfg inst now cs =
     (case cfg of
        None \<Rightarrow> cs
      | Some j \<Rightarrow> cs(inst \<mapsto> start (searchInterval j) now))"

text \<open>
  Modelled from the spec: the tick of one instance, missing from the sources. It polls
  the clock of that instance and of no other.
\<close>

definition tick :: "nat \<Rightarrow> nat \<Rightarrow> instances \<Rightarrow> bool \<times> instances" where
  "tick inst now cs =
     (case cs inst of
        None \<Rightarrow> (False, cs)
      | Some c \<Rightarrow> (fst (poll c now), cs(inst \<mapsto> snd (poll c now))))"

section \<open>What setup registers\<close>

lemma serverHandlers_addServerHandler [simp]:
  "serverHandlers (addServerHandler x n) = serverHandlers n @ [x]"
  by (simp add: addServerHandler_def)

lemma serverHandlers_addRouteMiddleware [simp]:
  "serverHandlers (addRouteMiddleware x n) = serverHandlers n"
  by (simp add: addRouteMiddleware_def)

lemma serverHandlers_pushPage [simp]:
  "serverHandlers (pushPage x n) = serverHandlers n"
  by (simp add: pushPage_def)

lemma serverMiddlewareLoop_handlers:
  "serverHandlers (serverMiddlewareLoop h mo ms n) =
     serverHandlers n @
       map (middlewareHandler h) (filter (flag (server (standardMiddleware mo))) ms)"
  by (induction ms arbitrary: n) (simp_all add: middlewareHandler_def)

lemma apiRoutesLoop_handlers:
  "serverHandlers (apiRoutesLoop h mo rs n) =
     serverHandlers n @
       map (apiHandler h mo) (filter (\<lambda>r. truthy (route_option (routes (api mo)) r)) rs)"
  by (induction rs arbitrary: n) (simp_all add: apiHandler_def)

lemma prefixGated_handlers:
  "serverHandlers (prefixGated h mo r ext n) =
     serverHandlers n @
       (if truthy (route_option (routes (api mo)) r) \<and> api_prefix (api mo) \<noteq> []
        then [apiHandler h mo r, apiHandlerExt h mo r ext] else [])"
  by (simp add: prefixGated_def apiHandler_def apiHandlerExt_def)

lemma serverHandlers_clientMiddleware:
  "serverHandlers (clientMiddleware h mo n) = serverHandlers n"
  by (simp add: clientMiddleware_def)

lemma serverHandlers_serverMiddleware:
  "serverHandlers (serverMiddleware h mo n) =
     serverHandlers n @
       map (middlewareHandler h)
         (filter (flag (server (standardMiddleware mo))) [''config'', ''language'', ''auth''])"
  unfolding serverMiddleware_def by (rule serverMiddlewareLoop_handlers)

lemma serverHandlers_collectionsRoute:
  "serverHandlers (collectionsRoute h mo n) = serverHandlers n @ collectionsHandlers h mo"
  by (simp add: collectionsRoute_def collectionsHandlers_def apiHandlerExt_def)

lemma serverHandlers_apiRoutes:
  "serverHandlers (apiRoutes h mo n) =
     serverHandlers n @
       map (apiHandler h mo) (filter (\<lambda>r. truthy (route_option (routes (api mo)) r)) apiRouteNames)"
  unfolding apiRoutes_def by (rule apiRoutesLoop_handlers)

lemma serverHandlers_catchAllRoutes:
  "serverHandlers (catchAllRoutes h mo n) = serverHandlers n @ catchAllHandlers h mo"
  by (simp add: catchAllRoutes_def catchAllHandlers_def)

lemma serverHandlers_extendPages:
  "serverHandlers (extendPages h mo n) = serverHandlers n"
  by (simp add: extendPages_def Let_def)

lemma serverHandlers_seoRoutes:
  "serverHandlers (seoRoutes h mo n) = serverHandlers n @ seoHandlers h mo"
  by (simp add: seoRoutes_def seoHandlers_def Let_def)

lemma serverHandlers_register:
  "serverHandlers (register h mo n) = serverHandlers n @ registeredHandlers h mo"
  unfolding register_def pagesRoutes_def previewsRoutes_def translatableStringsRoutes_def
    gatedHandlers_def registeredHandlers_def
  by (simp only: serverHandlers_seoRoutes serverHandlers_extendPages
        serverHandlers_catchAllRoutes prefixGated_handlers serverHandlers_apiRoutes
        serverHandlers_collectionsRoute serverHandlers_serverMiddleware
        serverHandlers_clientMiddleware append_assoc)

lemma filter_middleware_registeredHandlers:
  "filter middleware (registeredHandlers h mo) =
     map (middlewareHandler h)
         (filter (flag (server (standardMiddleware mo))) [''config'', ''language'', ''auth''])"
  by (simp add: registeredHandlers_def middlewareHandler_def collectionsHandlers_def
        apiHandler_def apiHandlerExt_def gatedHandlers_def catchAllHandlers_def
        seoHandlers_def filter_map o_def)

lemma setup_module_Inr:
  "setup_module h options n = Inr n' \<Longrightarrow>
     n' = register h (moduleOptions_of h options n)
            (n\<lparr> runtimeConfig := Some (init_private h options n),
                publicRuntimeConfig := Some (init_public h options n) \<rparr>)"
  by (auto simp: setup_module_def Let_def split: option.splits)

lemma addServerHandler_other [simp]:
  "routeMiddleware (addServerHandler x n) = routeMiddleware n"
  "pages (addServerHandler x n) = pages n"
  "runtimeConfig (addServerHandler x n) = runtimeConfig n"
  "publicRuntimeConfig (addServerHandler x n) = publicRuntimeConfig n"
  by (simp_all add: addServerHandler_def)

lemma pushPage_other [simp]:
  "routeMiddleware (pushPage x n) = routeMiddleware n"
  "pages (pushPage x n) = pages n @ [x]"
  "runtimeConfig (pushPage x n) = runtimeConfig n"
  "publicRuntimeConfig (pushPage x n) = publicRuntimeConfig n"
  by (simp_all add: pushPage_def)

lemma addRouteMiddleware_other [simp]:
  "routeMiddleware (addRouteMiddleware x n) =
     filter (\<lambda>y. mw_name y \<noteq> mw_name x) (routeMiddleware n) @ [x]"
  "pages (addRouteMiddleware x n) = pages n"
  "runtimeConfig (addRouteMiddleware x n) = runtimeConfig n"
  "publicRuntimeConfig (addRouteMiddleware x n) = publicRuntimeConfig n"
  by (simp_all add: addRouteMiddleware_def)

lemma serverMiddlewareLoop_other:
  "routeMiddleware (serverMiddlewareLoop h mo ms n) = routeMiddleware n
   \<and> pages (serverMiddlewareLoop h mo ms n) = pages n
   \<and> runtimeConfig (serverMiddlewareLoop h mo ms n) = runtimeConfig n
   \<and> publicRuntimeConfig (serverMiddlewareLoop h mo ms n) = publicRuntimeConfig n"
  by (induction ms arbitrary: n) simp_all

lemma apiRoutesLoop_other:
  "routeMiddleware (apiRoutesLoop h mo rs n) = routeMiddleware n
   \<and> pages (apiRoutesLoop h mo rs n) = pages n
   \<and> runtimeConfig (apiRoutesLoop h mo rs n) = runtimeConfig n
   \<and> publicRuntimeConfig (apiRoutesLoop h mo rs n) = publicRuntimeConfig n"
  by (induction rs arbitrary: n) simp_all

lemma sections_fields:
  "routeMiddleware (serverMiddleware h mo n) = routeMiddleware n"
  "pages (serverMiddleware h mo n) = pages n"
  "runtimeConfig (serverMiddleware h mo n) = runtimeConfig n"
  "publicRuntimeConfig (serverMiddleware h mo n) = publicRuntimeConfig n"
  "routeMiddleware (collectionsRoute h mo n) = routeMiddleware n"
  "pages (collectionsRoute h mo n) = pages n"
  "runtimeConfig (collectionsRoute h mo n) = runtimeConfig n"
  "publicRuntimeConfig (collectionsRoute h mo n) = publicRuntimeConfig n"
  "routeMiddleware (apiRoutes h mo n) = routeMiddleware n"
  "pages (apiRoutes h mo n) = pages n"
  "runtimeConfig (apiRoutes h mo n) = runtimeConfig n"
  "publicRuntimeConfig (apiRoutes h mo n) = publicRuntimeConfig n"
  "routeMiddleware (prefixGated h mo r ext n) = routeMiddleware n"
  "pages (prefixGated h mo r ext n) = pages n"
  "runtimeConfig (prefixGated h mo r ext n) = runtimeConfig n"
  "publicRuntimeConfig (prefixGated h mo r ext n) = publicRuntimeConfig n"
  "routeMiddleware (catchAllRoutes h mo n) = routeMiddleware n"
  "pages (catchAllRoutes h mo n) = pages n"
  "runtimeConfig (catchAllRoutes h mo n) = runtimeConfig n"
  "publicRuntimeConfig (catchAllRoutes h mo n) = publicRuntimeConfig n"
  "routeMiddleware (seoRoutes h mo n) = routeMiddleware n"
  "pages (seoRoutes h mo n) = pages n"
  "runtimeConfig (seoRoutes h mo n) = runtimeConfig n"
  "publicRuntimeConfig (seoRoutes h mo n) = publicRuntimeConfig n"
  by (simp_all add: serverMiddleware_def serverMiddlewareLoop_other collectionsRoute_def
        apiRoutes_def apiRoutesLoop_other prefixGated_def catchAllRoutes_def seoRoutes_def
        Let_def)

lemma clientMiddleware_other:
  "routeMiddleware (clientMiddleware h mo n) = registeredRouteMiddleware h mo (routeMiddleware n)"
  "pages (clientMiddleware h mo n) = pages n"
  "runtimeConfig (clientMiddleware h mo n) = runtimeConfig n"
  "publicRuntimeConfig (clientMiddleware h mo n) = publicRuntimeConfig n"
  by (simp_all add: clientMiddleware_def registeredRouteMiddleware_def)

lemma extendPages_other:
  "routeMiddleware (extendPages h mo n) = routeMiddleware n"
  "pages (extendPages h mo n) = pages n @ registeredPages h mo"
  "runtimeConfig (extendPages h mo n) = runtimeConfig n"
  "publicRuntimeConfig (extendPages h mo n) = publicRuntimeConfig n"
  by (simp_all add: extendPages_def registeredPages_def Let_def)

lemma register_state:
  "serverHandlers (register h mo n) = serverHandlers n @ registeredHandlers h mo"
  "routeMiddleware (register h mo n) = registeredRouteMiddleware h mo (routeMiddleware n)"
  "pages (register h mo n) = pages n @ registeredPages h mo"
  "runtimeConfig (register h mo n) = runtimeConfig n"
  "publicRuntimeConfig (register h mo n) = publicRuntimeConfig n"
proof -
  show "serverHandlers (register h mo n) = serverHandlers n @ registeredHandlers h mo"
    by (rule serverHandlers_register)
  show "routeMiddleware (register h mo n) = registeredRouteMiddleware h mo (routeMiddleware n)"
    "pages (register h mo n) = pages n @ registeredPages h mo"
    "runtimeConfig (register h mo n) = runtimeConfig n"
    "publicRuntimeConfig (register h mo n) = publicRuntimeConfig n"
    unfolding register_def translatableStringsRoutes_def previewsRoutes_def pagesRoutes_def
    by (simp_all only: sections_fields extendPages_other clientMiddleware_other)
qed

lemma setup_module_state:
  assumes "setup_module h options n = Inr r"
  shows "serverHandlers r = serverHandlers n @ registeredHandlers h (moduleOptions_of h options n)"
    and "routeMiddleware r =
      registeredRouteMiddleware h (moduleOptions_of h options n) (routeMiddleware n)"
    and "pages r = pages n @ registeredPages h (moduleOptions_of h options n)"
    and "runtimeConfig r = Some (init_private h options n)"
    and "publicRuntimeConfig r = Some (init_public h options n)"
  using setup_module_Inr [OF assms] by (simp_all add: register_state)

lemma setup_module_returns:
  "validateLanguageOptions h (moduleOptions_of h options n) = None \<Longrightarrow>
     \<not> isl (setup_module h options n)"
  by (simp add: setup_module_def Let_def)

lemma registeredHandlers_cong:
  "api mo = api mo' \<Longrightarrow> server (standardMiddleware mo) = server (standardMiddleware mo') \<Longrightarrow>
     registeredHandlers h mo = registeredHandlers h mo'"
  by (simp add: registeredHandlers_def collectionsHandlers_def apiHandler_def apiHandlerExt_def
        gatedHandlers_def catchAllHandlers_def seoHandlers_def)

lemma registeredHandlers_flags:
  assumes "flag fs' ''config'' = flag (server (standardMiddleware mo)) ''config''"
    and "flag fs' ''language'' = flag (server (standardMiddleware mo)) ''language''"
    and "flag fs' ''auth'' = flag (server (standardMiddleware mo)) ''auth''"
  shows "registeredHandlers h (mo\<lparr> standardMiddleware := (standardMiddleware mo)\<lparr> server := fs' \<rparr> \<rparr>)
     = registeredHandlers h mo"
  using assms
  by (simp add: registeredHandlers_def collectionsHandlers_def apiHandler_def apiHandlerExt_def
        gatedHandlers_def catchAllHandlers_def seoHandlers_def)

lemma registered_other_flags:
  "registeredPages h (mo\<lparr> standardMiddleware := (standardMiddleware mo)\<lparr> server := fs' \<rparr> \<rparr>)
     = registeredPages h mo"
  "registeredRouteMiddleware h (mo\<lparr> standardMiddleware := (standardMiddleware mo)\<lparr> server := fs' \<rparr> \<rparr>) ms
     = registeredRouteMiddleware h mo ms"
  by (simp_all add: registeredPages_def registeredRouteMiddleware_def)

lemma no_gated_handlers:
  assumes i: "inj (resolveModulePath h)" and p: "api_prefix (api mo) = []"
    and x: "x \<in> set (registeredHandlers h mo)"
  shows "handler x \<notin> resolveModulePath h `
           {''./runtime/api/pages.get'', ''./runtime/api/previews.get'',
            ''./runtime/api/translatable-strings.get''}"
proof -
  have e: "resolveModulePath h a = resolveModulePath h b \<longleftrightarrow> a = b" for a b
    using i by (simp add: inj_eq)
  have g: "gatedHandlers h mo r ext = []" for r ext
    by (simp add: gatedHandlers_def p)
  have f: "y \<in> set (map k (filter P xs)) \<Longrightarrow> y \<in> k ` set xs"
    for y :: server_handler and k P and xs :: "string list"
    by auto
  from x have "x \<in> set (map (middlewareHandler h)
          (filter (flag (server (standardMiddleware mo))) [''config'', ''language'', ''auth'']))
      \<or> x \<in> set (collectionsHandlers h mo)
      \<or> x \<in> set (map (apiHandler h mo)
          (filter (\<lambda>r. truthy (route_option (routes (api mo)) r)) apiRouteNames))
      \<or> x \<in> set (catchAllHandlers h mo)
      \<or> x \<in> set (seoHandlers h mo)"
    unfolding registeredHandlers_def g
    by (simp only: set_append Un_iff append_Nil)
  then consider
      (mw) "x \<in> middlewareHandler h ` set [''config'', ''language'', ''auth'']"
    | (col) "x \<in> set (collectionsHandlers h mo)"
    | (api) "x \<in> apiHandler h mo ` set apiRouteNames"
    | (ca) "x \<in> set (catchAllHandlers h mo)"
    | (seo) "x \<in> set (seoHandlers h mo)"
    using f [where k = "middlewareHandler h"] f [where k = "apiHandler h mo"] by blast
  then show ?thesis
  proof cases
    case mw
    then show ?thesis
      by (auto simp: middlewareHandler_def e)
  next
    case col
    then show ?thesis
      by (auto simp: collectionsHandlers_def e split: if_splits)
  next
    case api
    then show ?thesis
      by (auto simp: apiHandler_def apiRouteNames_def e)
  next
    case ca
    then show ?thesis
      by (auto simp: catchAllHandlers_def e split: if_splits)
  next
    case seo
    then show ?thesis
      by (auto simp: seoHandlers_def e split: if_splits)
  qed
qed

text \<open>
  \<open>setup\<close> does not read \<open>pageCache\<close>: the option is copied into neither runtime
  config, and the outcome of \<open>setup\<close> is the same for every value of it.
\<close>

lemma setup_module_pageCache:
  "setup_module h (options\<lparr> pageCache := c \<rparr>) n = setup_module h options n"
  by (simp add: setup_module_def moduleOptions_of_def init_private_def init_public_def
        resolved_options_def private_object_def public_object_def)

subsection \<open>The concrete environment\<close>

lemma example_helpers_simps:
  "resolveModulePath example_helpers p = p"
  "joinRouteParts example_helpers = example_joinRouteParts"
  "validateLanguageOptions example_helpers mo = None"
  by (simp_all add: example_helpers_def)

lemma example_setup_runs:
  "setup_module example_helpers options n =
     Inr (register example_helpers (moduleOptions_of example_helpers options n)
       (n\<lparr> runtimeConfig := Some (init_private example_helpers options n),
           publicRuntimeConfig := Some (init_public example_helpers options n) \<rparr>))"
  by (simp add: setup_module_def Let_def example_helpers_def)

lemma example_api:
  "api (moduleOptions_of example_helpers options empty_nuxt) = api options"
  by (simp add: moduleOptions_of_def init_private_def init_public_def resolved_options_def
        private_object_def public_object_def example_helpers_def
        example_getModuleOptions_def empty_nuxt_def)

lemma example_standardMiddleware:
  "standardMiddleware (moduleOptions_of example_helpers options empty_nuxt) =
     standardMiddleware options"
  by (simp add: moduleOptions_of_def init_private_def init_public_def resolved_options_def
        private_object_def public_object_def example_helpers_def
        example_getModuleOptions_def empty_nuxt_def)

lemma example_moduleOptions:
  "moduleOptions_of example_helpers options empty_nuxt =
     (resolved_options example_helpers options)\<lparr> pageCache := PageCacheUnset \<rparr>"
  by (simp add: moduleOptions_of_def init_private_def init_public_def resolved_options_def
        private_object_def public_object_def example_helpers_def
        example_getModuleOptions_def empty_nuxt_def)

lemma example_init_private:
  "init_private example_helpers options empty_nuxt =
     private_object example_helpers (resolved_options example_helpers options)"
  by (simp add: init_private_def example_helpers_def empty_nuxt_def)

lemma example_registeredHandlers:
  "registeredHandlers example_helpers (moduleOptions_of example_helpers options empty_nuxt) =
     registeredHandlers example_helpers options"
  by (rule registeredHandlers_cong) (simp_all add: example_api example_standardMiddleware)

lemma example_typed_routes:
  "typed_routes (routes (api (moduleOptions_of example_helpers (defaults ''k'') empty_nuxt)))"
  "typed_routes (routes (api (moduleOptions_of example_helpers options_no_prefix empty_nuxt)))"
  by (simp_all add: example_api options_no_prefix_def)
     (simp_all add: defaults_def default_routes_def typed_routes_def)

section \<open>Standard jobs\<close>

text \<open>
  C4. The configuration has an enable flag for exactly the three standard jobs
  \<open>clean-expired-previews\<close>, \<open>clean-expired-tokens\<close> and \<open>publish-pages\<close>: the default
  \<open>standardJobs\<close> object has the three keys of the interface and no other, each flag is
  \<open>true\<close> by default, and \<open>setup\<close> hands the flags to the runtime config as they are.
\<close>

theorem standard_jobs_default_enabled:
  "map fst (standardJobs (defaults g)) = standardJobs_interface
   \<and> length standardJobs_interface = 3
   \<and> distinct standardJobs_interface
   \<and> map (flag (standardJobs (defaults g))) standardJobs_interface = [True, True, True]
   \<and> rc_standardJobs (private_object h (resolved_options h options)) = standardJobs options"
  by (simp add: defaults_def standardJobs_interface_def flag_def private_object_def
        resolved_options_def)

section \<open>Server middleware\<close>

text \<open>
  C8, as stated, fails. The claim ends: the value of \<open>standardMiddleware.server.uploads\<close>
  has no effect on the output of \<open>setup\<close>. \<open>setup\<close> copies \<open>standardMiddleware\<close>, the
  \<open>uploads\<close> flag included, into the runtime config: run on the defaults and on the
  defaults with \<open>uploads\<close> set to \<open>false\<close>, it writes different runtime configs, so
  the two outputs differ.
\<close>

theorem uploads_flag_in_runtime_config_counterexample:
  "map_option rc_standardMiddleware
     (runtimeConfig (projr (setup_module example_helpers (defaults ''k'') empty_nuxt))) =
     Some \<lparr> client = [(''auth'', True)],
            server =
              [(''auth'', True), (''config'', True), (''language'', True), (''uploads'', True)] \<rparr>
   \<and> map_option rc_standardMiddleware
     (runtimeConfig (projr (setup_module example_helpers options_uploads_off empty_nuxt))) =
     Some \<lparr> client = [(''auth'', True)],
            server =
              [(''auth'', True), (''config'', True), (''language'', True), (''uploads'', False)] \<rparr>
   \<and> setup_module example_helpers (defaults ''k'') empty_nuxt \<noteq>
       setup_module example_helpers options_uploads_off empty_nuxt"
proof -
  have a: "map_option rc_standardMiddleware
     (runtimeConfig (projr (setup_module example_helpers options empty_nuxt))) =
     Some (standardMiddleware options)" for options
    by (simp add: example_setup_runs register_state example_init_private private_object_def
          resolved_options_def)
  have b: "standardMiddleware (defaults ''k'') =
      \<lparr> client = [(''auth'', True)],
            server =
              [(''auth'', True), (''config'', True), (''language'', True), (''uploads'', True)] \<rparr>"
    by (simp add: defaults_def)
  have c: "standardMiddleware options_uploads_off =
      \<lparr> client = [(''auth'', True)],
            server =
              [(''auth'', True), (''config'', True), (''language'', True), (''uploads'', False)] \<rparr>"
    by (simp add: options_uploads_off_def)
  have d: "setup_module example_helpers (defaults ''k'') empty_nuxt \<noteq>
       setup_module example_helpers options_uploads_off empty_nuxt"
  proof
    assume "setup_module example_helpers (defaults ''k'') empty_nuxt =
       setup_module example_helpers options_uploads_off empty_nuxt"
    then have "Some (standardMiddleware (defaults ''k'')) = Some (standardMiddleware options_uploads_off)"
      using a [of "defaults ''k''"] a [of options_uploads_off] by simp
    then show False
      by (simp add: b c)
  qed
  show ?thesis
    using a [of "defaults ''k''"] a [of options_uploads_off] d by (simp add: b c)
qed

text \<open>
  C8, amended. For every module options value, \<open>setup\<close> registers server middleware
  handlers only for the flags \<open>config\<close>, \<open>language\<close> and \<open>auth\<close> of
  \<open>standardMiddleware.server\<close>: one for each of them that is set, in this order. The
  \<open>uploads\<close> flag, \<open>true\<close> in the defaults, never causes a registration: two runs of
  \<open>setup\<close> whose module options differ only in the server flags, and there agree on
  these three, register the same server handlers, route middleware and pages. The
  value of the flag is only copied, inside \<open>standardMiddleware\<close>, into the runtime
  config: of the two objects that \<open>setup\<close> merges into the runtime configs, the
  public one does not depend on \<open>standardMiddleware\<close>, and the private one only in
  its field \<open>standardMiddleware\<close>.
\<close>

theorem server_middleware_flags:
  "(setup_module h options n = Inr r \<and> mo = moduleOptions_of h options n \<longrightarrow>
      filter middleware (drop (length (serverHandlers n)) (serverHandlers r)) =
        map (middlewareHandler h)
          (filter (flag (server (standardMiddleware mo))) [''config'', ''language'', ''auth''])
      \<and> runtimeConfig r =
          Some (mergeDefaults_private h (runtimeConfig n)
                  (private_object h (resolved_options h options)))
      \<and> publicRuntimeConfig r =
          Some (mergeDefaults_public h (publicRuntimeConfig n)
                  (public_object h (resolved_options h options))))
   \<and> rc_standardMiddleware (private_object h (resolved_options h options)) =
       standardMiddleware options
   \<and> (setup_module h options n = Inr r \<and> mo = moduleOptions_of h options n
        \<and> setup_module h options' n = Inr r'
        \<and> moduleOptions_of h options' n =
            mo\<lparr> standardMiddleware := (standardMiddleware mo)\<lparr> server := fs' \<rparr> \<rparr>
        \<and> flag fs' ''config'' = flag (server (standardMiddleware mo)) ''config''
        \<and> flag fs' ''language'' = flag (server (standardMiddleware mo)) ''language''
        \<and> flag fs' ''auth'' = flag (server (standardMiddleware mo)) ''auth'' \<longrightarrow>
      serverHandlers r' = serverHandlers r
      \<and> routeMiddleware r' = routeMiddleware r
      \<and> pages r' = pages r)
   \<and> map_of (server (standardMiddleware (defaults g))) ''uploads'' = Some True
   \<and> private_object h (resolved_options h (options\<lparr> standardMiddleware := sm \<rparr>)) =
       (private_object h (resolved_options h options))\<lparr> rc_standardMiddleware := sm \<rparr>
   \<and> public_object h (resolved_options h (options\<lparr> standardMiddleware := sm \<rparr>)) =
       public_object h (resolved_options h options)"
proof (intro conjI impI)
  assume a: "setup_module h options n = Inr r \<and> mo = moduleOptions_of h options n"
  then have r: "setup_module h options n = Inr r"
    by simp
  have s: "serverHandlers r = serverHandlers n @ registeredHandlers h mo"
    using a by (simp add: setup_module_state [OF r])
  show "filter middleware (drop (length (serverHandlers n)) (serverHandlers r)) =
        map (middlewareHandler h)
          (filter (flag (server (standardMiddleware mo))) [''config'', ''language'', ''auth''])"
    by (simp add: s filter_middleware_registeredHandlers)
  show "runtimeConfig r =
          Some (mergeDefaults_private h (runtimeConfig n)
                  (private_object h (resolved_options h options)))"
    by (simp add: setup_module_state [OF r] init_private_def)
  show "publicRuntimeConfig r =
          Some (mergeDefaults_public h (publicRuntimeConfig n)
                  (public_object h (resolved_options h options)))"
    by (simp add: setup_module_state [OF r] init_public_def)
next
  show "rc_standardMiddleware (private_object h (resolved_options h options)) =
       standardMiddleware options"
    by (simp add: private_object_def resolved_options_def)
next
  assume a: "setup_module h options n = Inr r \<and> mo = moduleOptions_of h options n
        \<and> setup_module h options' n = Inr r'
        \<and> moduleOptions_of h options' n =
            mo\<lparr> standardMiddleware := (standardMiddleware mo)\<lparr> server := fs' \<rparr> \<rparr>
        \<and> flag fs' ''config'' = flag (server (standardMiddleware mo)) ''config''
        \<and> flag fs' ''language'' = flag (server (standardMiddleware mo)) ''language''
        \<and> flag fs' ''auth'' = flag (server (standardMiddleware mo)) ''auth''"
  then have r: "setup_module h options n = Inr r" and r': "setup_module h options' n = Inr r'"
    and mo: "moduleOptions_of h options n = mo"
    and mo': "moduleOptions_of h options' n =
            mo\<lparr> standardMiddleware := (standardMiddleware mo)\<lparr> server := fs' \<rparr> \<rparr>"
    by simp_all
  have f: "registeredHandlers h (mo\<lparr> standardMiddleware := (standardMiddleware mo)\<lparr> server := fs' \<rparr> \<rparr>)
     = registeredHandlers h mo"
    by (rule registeredHandlers_flags) (use a in simp_all)
  show "serverHandlers r' = serverHandlers r"
    by (simp add: setup_module_state [OF r] setup_module_state [OF r'] mo mo' f)
  show "routeMiddleware r' = routeMiddleware r"
    by (simp add: setup_module_state [OF r] setup_module_state [OF r'] mo mo'
          registered_other_flags)
  show "pages r' = pages r"
    by (simp add: setup_module_state [OF r] setup_module_state [OF r'] mo mo'
          registered_other_flags)
next
  show "map_of (server (standardMiddleware (defaults g))) ''uploads'' = Some True"
    by (simp add: defaults_def)
next
  show "private_object h (resolved_options h (options\<lparr> standardMiddleware := sm \<rparr>)) =
       (private_object h (resolved_options h options))\<lparr> rc_standardMiddleware := sm \<rparr>"
    by (simp add: private_object_def resolved_options_def)
next
  show "public_object h (resolved_options h (options\<lparr> standardMiddleware := sm \<rparr>)) =
       public_object h (resolved_options h options)"
    by (simp add: public_object_def resolved_options_def)
qed

theorem server_middleware_flags_witness:
  "serverHandlers (projr (setup_module example_helpers options_uploads_off empty_nuxt)) =
     serverHandlers (projr (setup_module example_helpers (defaults ''k'') empty_nuxt))
   \<and> routeMiddleware (projr (setup_module example_helpers options_uploads_off empty_nuxt)) =
     routeMiddleware (projr (setup_module example_helpers (defaults ''k'') empty_nuxt))
   \<and> pages (projr (setup_module example_helpers options_uploads_off empty_nuxt)) =
     pages (projr (setup_module example_helpers (defaults ''k'') empty_nuxt))
   \<and> filter middleware
        (serverHandlers (projr (setup_module example_helpers (defaults ''k'') empty_nuxt))) =
      [\<lparr> route = [], middleware = True, handler = ''./runtime/middleware/server/config'' \<rparr>,
       \<lparr> route = [], middleware = True, handler = ''./runtime/middleware/server/language'' \<rparr>,
       \<lparr> route = [], middleware = True, handler = ''./runtime/middleware/server/auth'' \<rparr>]
   \<and> publicRuntimeConfig (projr (setup_module example_helpers options_uploads_off empty_nuxt)) =
     publicRuntimeConfig (projr (setup_module example_helpers (defaults ''k'') empty_nuxt))"
proof -
  let ?r = "projr (setup_module example_helpers (defaults ''k'') empty_nuxt)"
  let ?r' = "projr (setup_module example_helpers options_uploads_off empty_nuxt)"
  let ?mo = "moduleOptions_of example_helpers (defaults ''k'') empty_nuxt"
  let ?fs' = "server (standardMiddleware options_uploads_off)"
  have run: "setup_module example_helpers (defaults ''k'') empty_nuxt = Inr ?r"
      "setup_module example_helpers options_uploads_off empty_nuxt = Inr ?r'"
    by (simp_all add: example_setup_runs)
  have mo': "moduleOptions_of example_helpers options_uploads_off empty_nuxt =
      ?mo\<lparr> standardMiddleware := (standardMiddleware ?mo)\<lparr> server := ?fs' \<rparr> \<rparr>"
    by (simp add: example_moduleOptions resolved_options_def options_uploads_off_def)
       (simp add: defaults_def)
  have agree: "flag ?fs' ''config'' = flag (server (standardMiddleware ?mo)) ''config''"
      "flag ?fs' ''language'' = flag (server (standardMiddleware ?mo)) ''language''"
      "flag ?fs' ''auth'' = flag (server (standardMiddleware ?mo)) ''auth''"
    by (simp_all add: example_standardMiddleware options_uploads_off_def)
       (simp_all add: defaults_def flag_def)
  have flags: "filter (flag (server (standardMiddleware ?mo)))
        [''config'', ''language'', ''auth''] = [''config'', ''language'', ''auth'']"
    by (simp add: example_standardMiddleware) (simp add: defaults_def flag_def)
  have e: "serverHandlers empty_nuxt = []"
    by (simp add: empty_nuxt_def)
  note t = server_middleware_flags [where h = example_helpers and options = "defaults ''k''"
      and n = empty_nuxt and r = ?r and mo = ?mo and options' = options_uploads_off
      and r' = ?r' and fs' = ?fs']
  have same: "serverHandlers ?r' = serverHandlers ?r \<and> routeMiddleware ?r' = routeMiddleware ?r
      \<and> pages ?r' = pages ?r"
    using t [THEN conjunct2, THEN conjunct2, THEN conjunct1] run mo' agree by blast
  have mw: "filter middleware (drop (length (serverHandlers empty_nuxt)) (serverHandlers ?r)) =
        map (middlewareHandler example_helpers)
          (filter (flag (server (standardMiddleware ?mo))) [''config'', ''language'', ''auth''])"
    using t [THEN conjunct1] run(1) by blast
  note t' = server_middleware_flags [where h = example_helpers and options = options_uploads_off
      and n = empty_nuxt and r = ?r'
      and mo = "moduleOptions_of example_helpers options_uploads_off empty_nuxt"]
  have pub: "publicRuntimeConfig ?r =
      Some (mergeDefaults_public example_helpers (publicRuntimeConfig empty_nuxt)
              (public_object example_helpers (resolved_options example_helpers (defaults ''k''))))"
    using t [THEN conjunct1] run(1) by blast
  have pub': "publicRuntimeConfig ?r' =
      Some (mergeDefaults_public example_helpers (publicRuntimeConfig empty_nuxt)
              (public_object example_helpers (resolved_options example_helpers options_uploads_off)))"
    using t' [THEN conjunct1] run(2) by blast
  have po: "public_object example_helpers (resolved_options example_helpers options_uploads_off) =
      public_object example_helpers (resolved_options example_helpers (defaults ''k''))"
    unfolding options_uploads_off_def
    by (rule t [THEN conjunct2, THEN conjunct2, THEN conjunct2, THEN conjunct2, THEN conjunct2])
  have same_public: "publicRuntimeConfig ?r' = publicRuntimeConfig ?r"
    unfolding pub pub' po by (rule refl)
  show ?thesis
    using same same_public mw [unfolded flags]
    by (simp add: e middlewareHandler_def example_helpers_simps)
qed

section \<open>Routes gated by the API prefix\<close>

text \<open>
  C9. When \<open>api.prefix\<close> is the empty string, \<open>setup\<close> registers no handler for the
  routes \<open>pages.get\<close>, \<open>previews.get\<close> and \<open>translatable-strings.get\<close>, whatever
  their route options are, and for the catch-all \<open>'*'\<close> only the \<open>'**'\<close> handler.
  When \<open>api.prefix\<close> is not empty, it registers for each of the three routes that is
  enabled the base route and its extended variant, and for the catch-all the prefix root
  and \<open>'**'\<close>. The theorem gives, for both cases, the whole list of the server handlers
  that \<open>setup\<close> appends, in order, and \<open>setup\<close> returns whenever
  \<open>validateLanguageOptions\<close> does not throw. With an empty prefix none of the appended
  handlers is the file of one of the three routes (module paths resolving one to one).
  The route options are those of the declared type.
\<close>

theorem prefix_gated_routes:
  "(validateLanguageOptions h (moduleOptions_of h options n) = None \<longrightarrow>
      \<not> isl (setup_module h options n))
   \<and> (setup_module h options n = Inr r \<and> mo = moduleOptions_of h options n
        \<and> typed_routes (routes (api mo)) \<and> api_prefix (api mo) = [] \<longrightarrow>
      drop (length (serverHandlers n)) (serverHandlers r) =
        map (middlewareHandler h)
          (filter (flag (server (standardMiddleware mo))) [''config'', ''language'', ''auth''])
        @ collectionsHandlers h mo
        @ map (apiHandler h mo)
            (filter (\<lambda>x. truthy (route_option (routes (api mo)) x)) apiRouteNames)
        @ (if truthy (route_option (routes (api mo)) ''*'')
           then [\<lparr> route = joinRouteParts h [JString [], JString ''**''],
                    middleware = False,
                    handler = resolveModulePath h ''./runtime/api/catch-all'' \<rparr>]
           else [])
        @ seoHandlers h mo)
   \<and> (setup_module h options n = Inr r \<and> mo = moduleOptions_of h options n
        \<and> typed_routes (routes (api mo)) \<and> api_prefix (api mo) \<noteq> [] \<longrightarrow>
      drop (length (serverHandlers n)) (serverHandlers r) =
        map (middlewareHandler h)
          (filter (flag (server (standardMiddleware mo))) [''config'', ''language'', ''auth''])
        @ collectionsHandlers h mo
        @ map (apiHandler h mo)
            (filter (\<lambda>x. truthy (route_option (routes (api mo)) x)) apiRouteNames)
        @ (if truthy (route_option (routes (api mo)) ''pages.get'')
           then [apiHandler h mo ''pages.get'', apiHandlerExt h mo ''pages.get'' ''**'']
           else [])
        @ (if truthy (route_option (routes (api mo)) ''previews.get'')
           then [apiHandler h mo ''previews.get'', apiHandlerExt h mo ''previews.get'' ''**'']
           else [])
        @ (if truthy (route_option (routes (api mo)) ''translatable-strings.get'')
           then [apiHandler h mo ''translatable-strings.get'',
                 apiHandlerExt h mo ''translatable-strings.get'' '':domain'']
           else [])
        @ (if truthy (route_option (routes (api mo)) ''*'')
           then [\<lparr> route = joinRouteParts h [JString (api_prefix (api mo))],
                    middleware = False,
                    handler = resolveModulePath h ''./runtime/api/catch-all'' \<rparr>,
                 \<lparr> route = joinRouteParts h [JString (api_prefix (api mo)), JString ''**''],
                    middleware = False,
                    handler = resolveModulePath h ''./runtime/api/catch-all'' \<rparr>]
           else [])
        @ seoHandlers h mo)
   \<and> (setup_module h options n = Inr r \<and> mo = moduleOptions_of h options n
        \<and> typed_routes (routes (api mo)) \<and> api_prefix (api mo) = []
        \<and> inj (resolveModulePath h) \<longrightarrow>
      filter (\<lambda>x. handler x \<in> resolveModulePath h `
                 {''./runtime/api/pages.get'', ''./runtime/api/previews.get'',
                  ''./runtime/api/translatable-strings.get''})
        (drop (length (serverHandlers n)) (serverHandlers r)) = [])"
proof (intro conjI impI)
  assume "validateLanguageOptions h (moduleOptions_of h options n) = None"
  then show "\<not> isl (setup_module h options n)"
    by (rule setup_module_returns)
next
  assume a: "setup_module h options n = Inr r \<and> mo = moduleOptions_of h options n
        \<and> typed_routes (routes (api mo)) \<and> api_prefix (api mo) = []"
  then have r: "setup_module h options n = Inr r"
    by simp
  have p: "api_prefix (api mo) = []"
    using a by blast
  have m: "moduleOptions_of h options n = mo"
    using a by blast
  have d: "drop (length (serverHandlers n)) (serverHandlers r) = registeredHandlers h mo"
    by (simp add: setup_module_state [OF r] m)
  show "drop (length (serverHandlers n)) (serverHandlers r) =
        map (middlewareHandler h)
          (filter (flag (server (standardMiddleware mo))) [''config'', ''language'', ''auth''])
        @ collectionsHandlers h mo
        @ map (apiHandler h mo)
            (filter (\<lambda>x. truthy (route_option (routes (api mo)) x)) apiRouteNames)
        @ (if truthy (route_option (routes (api mo)) ''*'')
           then [\<lparr> route = joinRouteParts h [JString [], JString ''**''],
                    middleware = False,
                    handler = resolveModulePath h ''./runtime/api/catch-all'' \<rparr>]
           else [])
        @ seoHandlers h mo"
    unfolding d by (simp add: registeredHandlers_def gatedHandlers_def catchAllHandlers_def p)
next
  assume a: "setup_module h options n = Inr r \<and> mo = moduleOptions_of h options n
        \<and> typed_routes (routes (api mo)) \<and> api_prefix (api mo) \<noteq> []"
  then have r: "setup_module h options n = Inr r"
    by simp
  have p: "api_prefix (api mo) \<noteq> []"
    using a by blast
  have m: "moduleOptions_of h options n = mo"
    using a by blast
  have d: "drop (length (serverHandlers n)) (serverHandlers r) = registeredHandlers h mo"
    by (simp add: setup_module_state [OF r] m)
  show "drop (length (serverHandlers n)) (serverHandlers r) =
        map (middlewareHandler h)
          (filter (flag (server (standardMiddleware mo))) [''config'', ''language'', ''auth''])
        @ collectionsHandlers h mo
        @ map (apiHandler h mo)
            (filter (\<lambda>x. truthy (route_option (routes (api mo)) x)) apiRouteNames)
        @ (if truthy (route_option (routes (api mo)) ''pages.get'')
           then [apiHandler h mo ''pages.get'', apiHandlerExt h mo ''pages.get'' ''**'']
           else [])
        @ (if truthy (route_option (routes (api mo)) ''previews.get'')
           then [apiHandler h mo ''previews.get'', apiHandlerExt h mo ''previews.get'' ''**'']
           else [])
        @ (if truthy (route_option (routes (api mo)) ''translatable-strings.get'')
           then [apiHandler h mo ''translatable-strings.get'',
                 apiHandlerExt h mo ''translatable-strings.get'' '':domain'']
           else [])
        @ (if truthy (route_option (routes (api mo)) ''*'')
           then [\<lparr> route = joinRouteParts h [JString (api_prefix (api mo))],
                    middleware = False,
                    handler = resolveModulePath h ''./runtime/api/catch-all'' \<rparr>,
                 \<lparr> route = joinRouteParts h [JString (api_prefix (api mo)), JString ''**''],
                    middleware = False,
                    handler = resolveModulePath h ''./runtime/api/catch-all'' \<rparr>]
           else [])
        @ seoHandlers h mo"
    unfolding d by (simp add: registeredHandlers_def gatedHandlers_def catchAllHandlers_def p)
next
  assume a: "setup_module h options n = Inr r \<and> mo = moduleOptions_of h options n
        \<and> typed_routes (routes (api mo)) \<and> api_prefix (api mo) = []
        \<and> inj (resolveModulePath h)"
  then have r: "setup_module h options n = Inr r"
    by simp
  have p: "api_prefix (api mo) = []" and i: "inj (resolveModulePath h)"
    using a by blast+
  have m: "moduleOptions_of h options n = mo"
    using a by blast
  have d: "drop (length (serverHandlers n)) (serverHandlers r) = registeredHandlers h mo"
    by (simp add: setup_module_state [OF r] m)
  show "filter (\<lambda>x. handler x \<in> resolveModulePath h `
                 {''./runtime/api/pages.get'', ''./runtime/api/previews.get'',
                  ''./runtime/api/translatable-strings.get''})
        (drop (length (serverHandlers n)) (serverHandlers r)) = []"
    unfolding d filter_empty_conv using no_gated_handlers [OF i p] by blast
qed

theorem prefix_gated_routes_witness:
  "\<not> isl (setup_module example_helpers options_no_prefix empty_nuxt)
   \<and> serverHandlers (projr (setup_module example_helpers options_no_prefix empty_nuxt)) =
    [\<lparr> route = [], middleware = True, handler = ''./runtime/middleware/server/config'' \<rparr>,
     \<lparr> route = [], middleware = True, handler = ''./runtime/middleware/server/language'' \<rparr>,
     \<lparr> route = [], middleware = True, handler = ''./runtime/middleware/server/auth'' \<rparr>,
     \<lparr> route = ''/collections/**'', middleware = False, handler = ''./runtime/api/collections'' \<rparr>,
     \<lparr> route = ''/clear-cache'', middleware = False, handler = ''./runtime/api/clear-cache.post'' \<rparr>,
     \<lparr> route = ''/dashboard'', middleware = False, handler = ''./runtime/api/dashboard.get'' \<rparr>,
     \<lparr> route = ''/install'', middleware = False, handler = ''./runtime/api/install.post'' \<rparr>,
     \<lparr> route = ''/installed'', middleware = False, handler = ''./runtime/api/installed.get'' \<rparr>,
     \<lparr> route = ''/login'', middleware = False, handler = ''./runtime/api/login.post'' \<rparr>,
     \<lparr> route = ''/logout'', middleware = False, handler = ''./runtime/api/logout.post'' \<rparr>,
     \<lparr> route = ''/logout-all'', middleware = False, handler = ''./runtime/api/logout-all.post'' \<rparr>,
     \<lparr> route = ''/logout-others'', middleware = False, handler = ''./runtime/api/logout-others.post'' \<rparr>,
     \<lparr> route = ''/process-job'', middleware = False, handler = ''./runtime/api/process-job.post'' \<rparr>,
     \<lparr> route = ''/profile'', middleware = False, handler = ''./runtime/api/profile.get'' \<rparr>,
     \<lparr> route = ''/profile'', middleware = False, handler = ''./runtime/api/profile.patch'' \<rparr>,
     \<lparr> route = ''/renew-token'', middleware = False, handler = ''./runtime/api/renew-token.post'' \<rparr>,
     \<lparr> route = ''/**'', middleware = False, handler = ''./runtime/api/catch-all'' \<rparr>,
     \<lparr> route = ''/robots.txt'', middleware = False, handler = ''./runtime/api/robots.get'' \<rparr>,
     \<lparr> route = ''/sitemap.xml'', middleware = False, handler = ''./runtime/api/sitemap.get'' \<rparr>,
     \<lparr> route = ''/sitemap.xml/:index'', middleware = False, handler = ''./runtime/api/sitemap.get'' \<rparr>]
   \<and> filter (\<lambda>x. handler x \<in> {''./runtime/api/pages.get'', ''./runtime/api/previews.get'',
                                  ''./runtime/api/translatable-strings.get''})
         (serverHandlers (projr (setup_module example_helpers options_no_prefix empty_nuxt))) = []
   \<and> \<not> isl (setup_module example_helpers (defaults ''k'') empty_nuxt)
   \<and> serverHandlers (projr (setup_module example_helpers (defaults ''k'') empty_nuxt)) =
    [\<lparr> route = [], middleware = True, handler = ''./runtime/middleware/server/config'' \<rparr>,
     \<lparr> route = [], middleware = True, handler = ''./runtime/middleware/server/language'' \<rparr>,
     \<lparr> route = [], middleware = True, handler = ''./runtime/middleware/server/auth'' \<rparr>,
     \<lparr> route = ''/api/collections/**'', middleware = False, handler = ''./runtime/api/collections'' \<rparr>,
     \<lparr> route = ''/api/clear-cache'', middleware = False, handler = ''./runtime/api/clear-cache.post'' \<rparr>,
     \<lparr> route = ''/api/dashboard'', middleware = False, handler = ''./runtime/api/dashboard.get'' \<rparr>,
     \<lparr> route = ''/api/install'', middleware = False, handler = ''./runtime/api/install.post'' \<rparr>,
     \<lparr> route = ''/api/installed'', middleware = False, handler = ''./runtime/api/installed.get'' \<rparr>,
     \<lparr> route = ''/api/login'', middleware = False, handler = ''./runtime/api/login.post'' \<rparr>,
     \<lparr> route = ''/api/logout'', middleware = False, handler = ''./runtime/api/logout.post'' \<rparr>,
     \<lparr> route = ''/api/logout-all'', middleware = False, handler = ''./runtime/api/logout-all.post'' \<rparr>,
     \<lparr> route = ''/api/logout-others'', middleware = False, handler = ''./runtime/api/logout-others.post'' \<rparr>,
     \<lparr> route = ''/api/process-job'', middleware = False, handler = ''./runtime/api/process-job.post'' \<rparr>,
     \<lparr> route = ''/api/profile'', middleware = False, handler = ''./runtime/api/profile.get'' \<rparr>,
     \<lparr> route = ''/api/profile'', middleware = False, handler = ''./runtime/api/profile.patch'' \<rparr>,
     \<lparr> route = ''/api/renew-token'', middleware = False, handler = ''./runtime/api/renew-token.post'' \<rparr>,
     \<lparr> route = ''/api/pages'', middleware = False, handler = ''./runtime/api/pages.get'' \<rparr>,
     \<lparr> route = ''/api/pages/**'', middleware = False, handler = ''./runtime/api/pages.get'' \<rparr>,
     \<lparr> route = ''/api/previews'', middleware = False, handler = ''./runtime/api/previews.get'' \<rparr>,
     \<lparr> route = ''/api/previews/**'', middleware = False, handler = ''./runtime/api/previews.get'' \<rparr>,
     \<lparr> route = ''/api/translatable-strings'', middleware = False,
        handler = ''./runtime/api/translatable-strings.get'' \<rparr>,
     \<lparr> route = ''/api/translatable-strings/:domain'', middleware = False,
        handler = ''./runtime/api/translatable-strings.get'' \<rparr>,
     \<lparr> route = ''/api'', middleware = False, handler = ''./runtime/api/catch-all'' \<rparr>,
     \<lparr> route = ''/api/**'', middleware = False, handler = ''./runtime/api/catch-all'' \<rparr>,
     \<lparr> route = ''/robots.txt'', middleware = False, handler = ''./runtime/api/robots.get'' \<rparr>,
     \<lparr> route = ''/sitemap.xml'', middleware = False, handler = ''./runtime/api/sitemap.get'' \<rparr>,
     \<lparr> route = ''/sitemap.xml/:index'', middleware = False, handler = ''./runtime/api/sitemap.get'' \<rparr>]"
  (is "?A \<and> ?B \<and> ?N \<and> ?C \<and> ?D")
proof -
  let ?a = "setup_module example_helpers options_no_prefix empty_nuxt"
  let ?b = "setup_module example_helpers (defaults ''k'') empty_nuxt"
  let ?ma = "moduleOptions_of example_helpers options_no_prefix empty_nuxt"
  let ?mb = "moduleOptions_of example_helpers (defaults ''k'') empty_nuxt"
  have v: "validateLanguageOptions example_helpers ?ma = None"
      "validateLanguageOptions example_helpers ?mb = None"
    by (simp_all add: example_helpers_simps)
  note ta = prefix_gated_routes [where h = example_helpers and options = options_no_prefix
      and n = empty_nuxt and r = "projr ?a" and mo = ?ma]
  note tb = prefix_gated_routes [where h = example_helpers and options = "defaults ''k''"
      and n = empty_nuxt and r = "projr ?b" and mo = ?mb]
  have ra: "\<not> isl ?a"
    using ta [THEN conjunct1] v(1) by blast
  have rb: "\<not> isl ?b"
    using tb [THEN conjunct1] v(2) by blast
  have ia: "?a = Inr (projr ?a)" and ib: "?b = Inr (projr ?b)"
    using ra rb by simp_all
  have pa: "api_prefix (api ?ma) = []"
    by (simp add: example_api options_no_prefix_def)
  have pb: "api_prefix (api ?mb) \<noteq> []"
    by (simp add: example_api) (simp add: defaults_def)
  have e: "serverHandlers empty_nuxt = []"
    by (simp add: empty_nuxt_def)
  have la: "serverHandlers (projr ?a) = registeredHandlers example_helpers ?ma"
    using ta [THEN conjunct2, THEN conjunct1] ia example_typed_routes(2) pa
    by (simp add: e registeredHandlers_def gatedHandlers_def catchAllHandlers_def)
  have lb: "serverHandlers (projr ?b) = registeredHandlers example_helpers ?mb"
    using tb [THEN conjunct2, THEN conjunct2, THEN conjunct1] ib example_typed_routes(1) pb
    by (simp add: e registeredHandlers_def gatedHandlers_def catchAllHandlers_def)
  have rp: "resolveModulePath example_helpers = (\<lambda>p. p)"
    by (simp add: example_helpers_def)
  have ri: "inj (resolveModulePath example_helpers)"
    unfolding rp by simp
  have na: "filter (\<lambda>x. handler x \<in> {''./runtime/api/pages.get'', ''./runtime/api/previews.get'',
                                  ''./runtime/api/translatable-strings.get''})
         (serverHandlers (projr ?a)) = []"
    using ta [THEN conjunct2, THEN conjunct2, THEN conjunct2] ia example_typed_routes(2) pa ri
    unfolding rp image_ident by (simp add: e)
  have main: "?A \<and> ?B \<and> ?C \<and> ?D"
    unfolding la lb example_registeredHandlers
    using ra rb
    by (simp add: registeredHandlers_def middlewareHandler_def collectionsHandlers_def
        apiHandler_def apiHandlerExt_def gatedHandlers_def catchAllHandlers_def seoHandlers_def
        apiRouteNames_def route_option_def default_routes_def defaults_def flag_def
        example_helpers_def options_no_prefix_def)
  from main na show ?thesis
    by blast
qed

section \<open>Issuing tokens\<close>

text \<open>
  C6. For every user, \<open>issue(user, remember = false)\<close> gives a token whose
  \<open>expires_at\<close> is the time of issue plus the short default duration, and
  \<open>issue(user, remember = true)\<close> one whose \<open>expires_at\<close> is the time of issue plus
  the long default duration. The token is stored under its id, for the user it was
  issued to. The defaults of the two durations are \<open>'4 hours'\<close> and \<open>'7 days'\<close>, and
  \<open>setup\<close> hands the \<open>jwt\<close> options to the runtime config as they are.
\<close>

theorem issue_expiry:
  "expires_at (fst (issue seconds cfg now user False store)) = now + seconds (expiration cfg)
   \<and> expires_at (fst (issue seconds cfg now user True store)) = now + seconds (expirationLong cfg)
   \<and> issued_at (fst (issue seconds cfg now user remember store)) = now
   \<and> user_id (fst (issue seconds cfg now user remember store)) = user
   \<and> tokens (snd (issue seconds cfg now user remember store))
         (token_id (fst (issue seconds cfg now user remember store))) =
       Some (fst (issue seconds cfg now user remember store))
   \<and> expiration (jwt (defaults g)) = ''4 hours''
   \<and> expirationLong (jwt (defaults g)) = ''7 days''
   \<and> rc_jwt (private_object h (resolved_options h options)) = jwt options
   \<and> expires_at (fst (issue seconds (jwt (defaults g)) now user False store)) =
       now + seconds ''4 hours''
   \<and> expires_at (fst (issue seconds (jwt (defaults g)) now user True store)) =
       now + seconds ''7 days''"
  by (simp add: issue_def Let_def defaults_def private_object_def resolved_options_def)

section \<open>The tick of the job search\<close>

text \<open>
  C5. The job search interval is a number of seconds, 60 by default, and it is
  configurable: \<open>setup\<close> writes the \<open>jobs\<close> option into the runtime config as it is
  (a runtime config that holds nothing of its own takes the object \<open>setup\<close> built),
  and an instance booted with the \<open>jobs\<close> object of the runtime config has a clock of
  its own whose interval is the \<open>searchInterval\<close> of that object, whatever its value:
  the first tick fires exactly when one interval has passed since the boot, and moves the
  next-fire time on by one interval. With \<open>jobs\<close> set to \<open>false\<close> no clock is
  started. A clock fires exactly when it is not cancelled and its next-fire time has
  come. A tick or a boot of one instance leaves the clock of every other instance as it
  was, and what a tick does depends on the clock of its own instance only: the instances
  share no clock state.
\<close>

theorem search_interval_default:
  "jobs (defaults g) = Some \<lparr> searchInterval = 60 \<rparr>
   \<and> (setup_module h options n = Inr r \<longrightarrow>
        runtimeConfig r =
          Some (mergeDefaults_private h (runtimeConfig n)
                  (private_object h (resolved_options h options))))
   \<and> rc_jobs (private_object h (resolved_options h options)) = jobs options
   \<and> (setup_module h options n = Inr r
        \<and> mergeDefaults_private h (runtimeConfig n)
              (private_object h (resolved_options h options)) =
            private_object h (resolved_options h options)
        \<and> jobs options = Some j \<longrightarrow>
        boot_instance (Option.bind (runtimeConfig r) rc_jobs) inst t0 cs inst =
          Some \<lparr> interval = searchInterval j, next_fire = t0 + searchInterval j,
                 cancelled = False \<rparr>)
   \<and> boot_instance (Some j) inst t0 cs inst =
       Some \<lparr> interval = searchInterval j, next_fire = t0 + searchInterval j, cancelled = False \<rparr>
   \<and> boot_instance None inst t0 cs = cs
   \<and> (fst (tick inst now (boot_instance (Some j) inst t0 cs)) \<longleftrightarrow> t0 + searchInterval j \<le> now)
   \<and> (t0 + searchInterval j \<le> now \<longrightarrow>
        snd (tick inst now (boot_instance (Some j) inst t0 cs)) inst =
          Some \<lparr> interval = searchInterval j, next_fire = t0 + 2 * searchInterval j,
                 cancelled = False \<rparr>)
   \<and> boot_instance (jobs (defaults g)) inst t0 cs inst =
       Some \<lparr> interval = 60, next_fire = t0 + 60, cancelled = False \<rparr>
   \<and> (fst (poll c now) \<longleftrightarrow> \<not> cancelled c \<and> next_fire c \<le> now)
   \<and> (fst (poll c now) \<longrightarrow>
        next_fire (snd (poll c now)) = next_fire c + interval c
        \<and> interval (snd (poll c now)) = interval c
        \<and> cancelled (snd (poll c now)) = cancelled c)
   \<and> (\<not> fst (poll c now) \<longrightarrow> snd (poll c now) = c)
   \<and> \<not> fst (poll (stop c) now)
   \<and> (cs inst = None \<longrightarrow> tick inst now cs = (False, cs))
   \<and> (cs inst = Some c \<longrightarrow>
        fst (tick inst now cs) = fst (poll c now)
        \<and> snd (tick inst now cs) inst = Some (snd (poll c now)))
   \<and> (other \<noteq> inst \<longrightarrow>
        snd (tick inst now cs) other = cs other
        \<and> boot_instance cfg inst now cs other = cs other)
   \<and> (cs inst = cs' inst \<longrightarrow>
        fst (tick inst now cs) = fst (tick inst now cs')
        \<and> snd (tick inst now cs) inst = snd (tick inst now cs') inst)"
proof (intro conjI impI)
  assume r: "setup_module h options n = Inr r"
  show "runtimeConfig r =
          Some (mergeDefaults_private h (runtimeConfig n)
                  (private_object h (resolved_options h options)))"
    by (simp add: setup_module_state [OF r] init_private_def)
next
  assume a: "setup_module h options n = Inr r
        \<and> mergeDefaults_private h (runtimeConfig n)
              (private_object h (resolved_options h options)) =
            private_object h (resolved_options h options)
        \<and> jobs options = Some j"
  then have r: "setup_module h options n = Inr r"
    by simp
  have m: "mergeDefaults_private h (runtimeConfig n)
              (private_object h (resolved_options h options)) =
            private_object h (resolved_options h options)"
    using a by blast
  have j: "jobs options = Some j"
    using a by blast
  have b: "runtimeConfig r = Some (private_object h (resolved_options h options))"
    by (simp add: setup_module_state [OF r] init_private_def m)
  have c: "Option.bind (runtimeConfig r) rc_jobs = Some j"
    unfolding b by (simp add: private_object_def resolved_options_def j)
  show "boot_instance (Option.bind (runtimeConfig r) rc_jobs) inst t0 cs inst =
          Some \<lparr> interval = searchInterval j, next_fire = t0 + searchInterval j,
                 cancelled = False \<rparr>"
    unfolding c by (simp add: boot_instance_def start_def)
qed (auto simp: defaults_def private_object_def resolved_options_def boot_instance_def
        start_def stop_def poll_def tick_def split: option.splits)

theorem search_interval_default_witness:
  "Option.bind
       (runtimeConfig (projr (setup_module example_helpers options_interval_5 empty_nuxt)))
       rc_jobs = Some \<lparr> searchInterval = 5 \<rparr>
   \<and> Option.bind
       (runtimeConfig (projr (setup_module example_helpers (defaults ''k'') empty_nuxt)))
       rc_jobs = Some \<lparr> searchInterval = 60 \<rparr>
   \<and> boot_instance
       (Option.bind
          (runtimeConfig (projr (setup_module example_helpers options_interval_5 empty_nuxt)))
          rc_jobs) 3 100 Map.empty 3 =
       Some \<lparr> interval = 5, next_fire = 105, cancelled = False \<rparr>
   \<and> fst (tick 3 104 (boot_instance (jobs options_interval_5) 4 102
          (boot_instance (jobs options_interval_5) 3 100 Map.empty))) = False
   \<and> fst (tick 3 105 (boot_instance (jobs options_interval_5) 4 102
          (boot_instance (jobs options_interval_5) 3 100 Map.empty))) = True
   \<and> snd (tick 3 105 (boot_instance (jobs options_interval_5) 4 102
          (boot_instance (jobs options_interval_5) 3 100 Map.empty))) 3 =
       Some \<lparr> interval = 5, next_fire = 110, cancelled = False \<rparr>
   \<and> snd (tick 3 105 (boot_instance (jobs options_interval_5) 4 102
          (boot_instance (jobs options_interval_5) 3 100 Map.empty))) 4 =
       Some \<lparr> interval = 5, next_fire = 107, cancelled = False \<rparr>"
proof -
  let ?j = "\<lparr> searchInterval = 5 \<rparr>"
  let ?r5 = "projr (setup_module example_helpers options_interval_5 empty_nuxt)"
  let ?r60 = "projr (setup_module example_helpers (defaults ''k'') empty_nuxt)"
  let ?cs3 = "boot_instance (Some ?j) 3 100 Map.empty"
  let ?cs = "boot_instance (Some ?j) 4 102 ?cs3"
  have j: "jobs options_interval_5 = Some ?j"
    by (simp add: options_interval_5_def)
  have run: "setup_module example_helpers options_interval_5 empty_nuxt = Inr ?r5"
      "setup_module example_helpers (defaults ''k'') empty_nuxt = Inr ?r60"
    by (simp_all add: example_setup_runs)
  have m: "mergeDefaults_private example_helpers (runtimeConfig empty_nuxt) x = x" for x
    by (simp add: example_helpers_def empty_nuxt_def)
  note t5 = search_interval_default [where h = example_helpers and options = options_interval_5
      and n = empty_nuxt and r = ?r5 and g = "''k''" and j = ?j]
  note t60 = search_interval_default [where h = example_helpers and options = "defaults ''k''"
      and n = empty_nuxt and r = ?r60 and g = "''k''"]
  have rc5: "Option.bind (runtimeConfig ?r5) rc_jobs = Some ?j"
    using t5 [THEN conjunct2, THEN conjunct1] t5 [THEN conjunct2, THEN conjunct2, THEN conjunct1]
      run(1) j by (simp add: m)
  have rc60: "Option.bind (runtimeConfig ?r60) rc_jobs = Some \<lparr> searchInterval = 60 \<rparr>"
    using t60 [THEN conjunct2, THEN conjunct1] t60 [THEN conjunct2, THEN conjunct2, THEN conjunct1]
      t60 [THEN conjunct1] run(2) by (simp add: m)
  have boot: "boot_instance (Option.bind (runtimeConfig ?r5) rc_jobs) 3 100 Map.empty 3 =
       Some \<lparr> interval = 5, next_fire = 105, cancelled = False \<rparr>"
    using t5 [where inst = 3 and ?t0.0 = 100 and cs = Map.empty,
        THEN conjunct2, THEN conjunct2, THEN conjunct2, THEN conjunct1] run(1) j m
    by simp
  have ne: "(4::nat) \<noteq> 3" "(3::nat) \<noteq> 4"
    by simp_all
  have b4: "?cs 4 = Some \<lparr> interval = 5, next_fire = 107, cancelled = False \<rparr>"
    using t5 [where inst = 4 and ?t0.0 = 102 and cs = ?cs3] by simp
  have cs3: "?cs 3 = ?cs3 3"
    using t5 [where inst = 4 and other = 3 and now = 102 and cs = ?cs3 and cfg = "Some ?j"] ne
    by blast
  have other: "snd (tick 3 105 ?cs) 4 = ?cs 4"
    using t5 [where inst = 3 and other = 4 and now = 105 and cs = ?cs] ne by blast
  have same: "fst (tick 3 now ?cs) = fst (tick 3 now ?cs3)
      \<and> snd (tick 3 now ?cs) 3 = snd (tick 3 now ?cs3) 3" for now
    using t5 [where inst = 3 and now = now and cs = ?cs and cs' = ?cs3] cs3 by blast
  have f: "fst (tick 3 now ?cs3) \<longleftrightarrow> 100 + 5 \<le> now" for now
    using t5 [where inst = 3 and ?t0.0 = 100 and cs = Map.empty and now = now] by simp
  have s: "snd (tick 3 105 ?cs3) 3 = Some \<lparr> interval = 5, next_fire = 110, cancelled = False \<rparr>"
    using t5 [where inst = 3 and ?t0.0 = 100 and cs = Map.empty and now = 105] by simp
  show ?thesis
    unfolding j using rc5 rc60 boot other b4 same [of 104] same [of 105] f [of 104] f [of 105] s
    by simp
qed

end
